theory Spec2Isabelle
  imports Complex_Main
begin

section \<open>Platform values: strings, numbers and dates\<close>

text \<open>
  The module \<open>src/lib/actions.ts\<close> is a set of server actions. Its own logic is
  sequential: look a record up, branch, compute a value, write it back, tell somebody.
  The embedding keeps that shape. Strings are byte strings (UTF-8), counters and the
  fields of a date are \<open>int\<close>, \<open>undefined\<close> is \<open>None\<close>.
\<close>

text \<open>
  A price or an amount of money is a JavaScript number, a double. The model keeps the
  exact value of the double, a rational. Comparisons and the tests against zero are exact
  on doubles, so they are the ones of the rationals. The product of two doubles is rounded
  and printing a double chooses a decimal expansion: both belong to the platform and are
  parameters of the model (\<open>numberTimes\<close>, \<open>numberToString\<close> below).
\<close>

type_synonym number = rat

text \<open>JavaScript truthiness of the three kinds of value the module tests with
  \<open>&&\<close>, \<open>||\<close> and \<open>if (x)\<close>.\<close>

definition truthyStr :: "string option \<Rightarrow> bool" where
  "truthyStr s = (case s of None \<Rightarrow> False | Some t \<Rightarrow> t \<noteq> [])"

definition truthyNum :: "'a::zero option \<Rightarrow> bool" where
  "truthyNum n = (case n of None \<Rightarrow> False | Some k \<Rightarrow> k \<noteq> 0)"

definition orNum :: "'a::zero option \<Rightarrow> 'a \<Rightarrow> 'a" where
  \<comment> \<open>\<open>n || d\<close> on an optional number\<close>
  "orNum n d = (case n of None \<Rightarrow> d | Some k \<Rightarrow> if k = 0 then d else k)"

definition orStr :: "string option \<Rightarrow> string \<Rightarrow> string" where
  \<comment> \<open>\<open>s || d\<close> on an optional string\<close>
  "orStr s d = (case s of None \<Rightarrow> d | Some t \<Rightarrow> if t = [] then d else t)"

subsection \<open>Decimal and hexadecimal digits\<close>

definition digitChar :: "int \<Rightarrow> char" where
  "digitChar n = char_of (48 + n mod 10)"

fun natDigits :: "nat \<Rightarrow> int \<Rightarrow> string" where
  \<comment> \<open>the last \<open>w\<close> decimal digits of \<open>n\<close>, zero padded\<close>
  "natDigits 0 n = []"
| "natDigits (Suc w) n = natDigits w (n div 10) @ [digitChar n]"

function showPos :: "int \<Rightarrow> string" where
  "showPos n = (if n < 10 then [digitChar n] else showPos (n div 10) @ [digitChar n])"
  by pat_completeness auto
termination
  by (relation "measure nat") auto

definition showInt :: "int \<Rightarrow> string" where
  "showInt i = (if i < 0 then CHR ''-'' # showPos (- i) else showPos i)"

definition hexChar :: "int \<Rightarrow> char" where
  "hexChar n = (if n mod 16 < 10 then char_of (48 + n mod 16) else char_of (55 + n mod 16))"

subsection \<open>\<open>encodeURIComponent\<close>\<close>

definition uriUnreserved :: "char \<Rightarrow> bool" where
  "uriUnreserved c =
     (let k = (of_char c :: int) in
        (65 \<le> k \<and> k \<le> 90) \<or> (97 \<le> k \<and> k \<le> 122) \<or> (48 \<le> k \<and> k \<le> 57)
        \<or> c \<in> set ''-_.!~*'()'')"

fun encodeURIComponent :: "string \<Rightarrow> string" where
  "encodeURIComponent [] = []"
| "encodeURIComponent (c # cs) =
     (if uriUnreserved c then [c]
      else [CHR ''%'', hexChar ((of_char c :: int) div 16), hexChar (of_char c)])
     @ encodeURIComponent cs"

subsection \<open>Dates\<close>

text \<open>
  A JavaScript \<open>Date\<close> is an instant. The model stores the instant by its civil fields
  in UTC: year, month (0 to 11, as \<open>getMonth\<close> counts), day of the month and the
  millisecond of the day. The server is taken to run in UTC, so that the local getters
  and setters used by \<open>date-fns\<close> are the UTC ones. On well-formed dates the order of
  instants is the lexicographic order of the four fields.
\<close>

record date =
  year :: int
  month :: int
  day :: int
  msOfDay :: int

definition isLeapYear :: "int \<Rightarrow> bool" where
  "isLeapYear y = (y mod 4 = 0 \<and> (y mod 100 \<noteq> 0 \<or> y mod 400 = 0))"

definition daysInMonth :: "int \<Rightarrow> int \<Rightarrow> int" where
  "daysInMonth y m =
     (if m = 1 then (if isLeapYear y then 29 else 28)
      else if m = 3 \<or> m = 5 \<or> m = 8 \<or> m = 10 then 30 else 31)"

definition validDate :: "date \<Rightarrow> bool" where
  "validDate d = (0 \<le> month d \<and> month d < 12 \<and> 1 \<le> day d \<and> day d \<le> daysInMonth (year d) (month d)
                  \<and> 0 \<le> msOfDay d \<and> msOfDay d < 86400000)"

definition dateLess :: "date \<Rightarrow> date \<Rightarrow> bool" where
  \<comment> \<open>\<open>a < b\<close> on instants\<close>
  "dateLess a b =
     (year a < year b \<or> (year a = year b \<and>
       (month a < month b \<or> (month a = month b \<and>
         (day a < day b \<or> (day a = day b \<and> msOfDay a < msOfDay b))))))"

definition dateLeq :: "date \<Rightarrow> date \<Rightarrow> bool" where
  "dateLeq a b = (dateLess a b \<or>
     (year a = year b \<and> month a = month b \<and> day a = day b \<and> msOfDay a = msOfDay b))"

definition nextDay :: "date \<Rightarrow> date" where
  "nextDay d =
     (if day d < daysInMonth (year d) (month d) then d\<lparr>day := day d + 1\<rparr>
      else if month d < 11 then d\<lparr>month := month d + 1, day := 1\<rparr>
      else d\<lparr>year := year d + 1, month := 0, day := 1\<rparr>)"

definition prevDay :: "date \<Rightarrow> date" where
  "prevDay d =
     (if 1 < day d then d\<lparr>day := day d - 1\<rparr>
      else if 0 < month d
        then d\<lparr>month := month d - 1, day := daysInMonth (year d) (month d - 1)\<rparr>
      else d\<lparr>year := year d - 1, month := 11, day := 31\<rparr>)"

fun iter :: "nat \<Rightarrow> ('a \<Rightarrow> 'a) \<Rightarrow> 'a \<Rightarrow> 'a" where
  "iter 0 f x = x"
| "iter (Suc n) f x = iter n f (f x)"

definition addDays :: "date \<Rightarrow> int \<Rightarrow> date" where
  \<comment> \<open>\<open>date-fns\<close>: \<open>date.setDate(date.getDate() + amount)\<close>; the clock time is kept\<close>
  "addDays d amount =
     (if 0 \<le> amount then iter (nat amount) nextDay d else iter (nat (- amount)) prevDay d)"

definition addMonths :: "date \<Rightarrow> int \<Rightarrow> date" where
  \<comment> \<open>\<open>date-fns\<close>: the same day of the target month, or its last day when the target
      month is shorter; the clock time is kept\<close>
  "addMonths d amount =
     (if amount = 0 then d
      else
        let idx = year d * 12 + month d + amount;
            y = idx div 12;
            m = idx mod 12;
            dim = daysInMonth y m
        in if dim \<le> day d then d\<lparr>year := y, month := m, day := dim\<rparr>
           else d\<lparr>year := y, month := m\<rparr>)"

definition addYears :: "date \<Rightarrow> int \<Rightarrow> date" where
  \<comment> \<open>\<open>date-fns\<close>: \<open>addMonths(date, amount * 12)\<close>\<close>
  "addYears d amount = addMonths d (amount * 12)"

definition addMilliseconds :: "date \<Rightarrow> int \<Rightarrow> date" where
  \<comment> \<open>\<open>new Date(d.getTime() + k)\<close>\<close>
  "addMilliseconds d k =
     (let t = msOfDay d + k
      in (addDays d (t div 86400000))\<lparr>msOfDay := t mod 86400000\<rparr>)"

definition daysFromCivil :: "int \<Rightarrow> int \<Rightarrow> int \<Rightarrow> int" where
  \<comment> \<open>days from 1970-01-01 to the given civil day (month 0 to 11)\<close>
  "daysFromCivil y0 m d =
     (let y = (if m < 2 then y0 - 1 else y0);
          era = y div 400;
          yoe = y - era * 400;
          mp = (if m < 2 then m + 10 else m - 2);
          doy = (153 * mp + 2) div 5 + d - 1;
          doe = yoe * 365 + yoe div 4 - yoe div 100 + doy
      in era * 146097 + doe - 719468)"

definition getTime :: "date \<Rightarrow> int" where
  "getTime d = daysFromCivil (year d) (month d) (day d) * 86400000 + msOfDay d"

definition showYear :: "int \<Rightarrow> string" where
  "showYear y =
     (if 0 \<le> y \<and> y \<le> 9999 then natDigits 4 y
      else (if y < 0 then CHR ''-'' else CHR ''+'') # natDigits 6 \<bar>y\<bar>)"

definition toISOString :: "date \<Rightarrow> string" where
  "toISOString d =
     showYear (year d) @ ''-'' @ natDigits 2 (month d + 1) @ ''-'' @ natDigits 2 (day d)
     @ ''T'' @ natDigits 2 (msOfDay d div 3600000)
     @ '':'' @ natDigits 2 (msOfDay d div 60000 mod 60)
     @ '':'' @ natDigits 2 (msOfDay d div 1000 mod 60)
     @ ''.'' @ natDigits 3 (msOfDay d mod 1000) @ ''Z''"

definition lifetimeExpiry :: date where
  \<comment> \<open>\<open>new Date('9999-12-31')\<close>\<close>
  "lifetimeExpiry = \<lparr>year = 9999, month = 11, day = 31, msOfDay = 0\<rparr>"

section \<open>Data model\<close>

text \<open>
  The types of \<open>./types\<close> are not part of the module; the records below hold the
  fields that \<open>actions.ts\<close> reads and writes, under the names it uses (with a prefix
  where two records share a field name). An optional field is an \<open>option\<close>.
\<close>

datatype duration_class = Trial | Monthly | Yearly | Lifetime | OtherDuration string

record plan =
  plan_id :: string
  plan_name :: string
  plan_price :: number
  plan_duration :: duration_class
  plan_days :: "int option"

record service_type_setting =
  st_id :: string
  st_name :: string
  st_enabled :: bool
  st_priceEnabled :: bool
  st_price :: "number option"

record provider_settings =
  serviceTypes :: "service_type_setting list"
  shopAddress :: "string option"
  onlinePaymentEnabled :: bool
  payAfterServiceEnabled :: bool
  googleMapLink :: "string option"
  dateFormat :: "string option"
  timezone :: string
  currency :: string
  slotDuration :: "int option"
  blockedSlots :: "string list option"
  blockedDates :: "string list option"

record provider =
  username :: string
  pname :: string
  contactEmail :: string
  settings :: provider_settings
  planId :: "string option"
  planExpiry :: "date option"
  hasUsedTrial :: bool
  googleCalendar :: bool

datatype booking_status = Pending | Upcoming | Canceled

datatype payment_status = PaymentPending | Paid

record payment =
  orderId :: "string option"
  paymentId :: "string option"
  amount :: "number option"
  paymentStatus :: "payment_status option"

record booking =
  bookingId :: string
  customerName :: string
  customerEmail :: string
  customerPhone :: string
  serviceType :: string
  dateTime :: date
  providerUsername :: string
  address :: "string option"
  flatHouseNo :: "string option"
  landmark :: "string option"
  pincode :: "string option"
  city :: "string option"
  state :: "string option"
  country :: "string option"
  status :: booking_status
  bookingPayment :: "payment option"
  googleCalendarEventId :: "string option"
  googleMeetLink :: "string option"

record payment_record =
  pr_providerUsername :: string
  pr_bookingId :: "string option"
  pr_planId :: string
  pr_amount :: number
  pr_currency :: string
  pr_razorpay_payment_id :: string
  pr_razorpay_order_id :: string

record notification =
  message :: string
  ntype :: string
  link :: string

record confirmation_email =
  ce_customerName :: string
  ce_providerName :: string
  ce_serviceType :: string
  ce_bookingDate :: string
  ce_bookingTime :: string
  ce_bookingTimeProvider :: string
  ce_bookingAddress :: string
  ce_googleLink :: string
  ce_outlookLink :: string
  ce_icsLink :: string
  ce_paymentDetails :: string
  ce_googleMeetLink :: "string option"
  ce_googleMapLink :: "string option"

record provider_email =
  pe_providerName :: string
  pe_customerName :: string
  pe_customerEmail :: string
  pe_customerPhone :: string
  pe_serviceType :: string
  pe_bookingDate :: string
  pe_bookingTime :: string
  pe_bookingAddress :: string
  pe_paymentDetails :: string
  pe_googleMeetLink :: "string option"
  pe_googleMapLink :: "string option"

datatype email =
    SubscriptionEmail string string string date bool
  | BookingConfirmationEmail string confirmation_email
  | ProviderBookingNotificationEmail string provider_email

record razorpay_settings =
  keyId :: "string option"
  keySecret :: "string option"

record order_options =
  oo_amount :: number
  oo_currency :: string
  oo_receipt :: string
  oo_payment_capture :: int

record order =
  order_id :: string
  order_options :: order_options

subsection \<open>The world outside the module\<close>

text \<open>
  Everything the module reaches through \<open>./data\<close>, \<open>./email-templates\<close> and the
  payment gateway is one record: the stored providers, plans and bookings, the admin's
  gateway settings, and the append-only logs of payment ledger records, notifications,
  emails handed over for delivery and orders requested from the gateway.
\<close>

record world =
  providers :: "string \<rightharpoonup> provider"
  plans :: "string \<rightharpoonup> plan"
  bookings :: "(string \<times> string) \<rightharpoonup> booking"
  razorpay :: "razorpay_settings option"
  paymentRecords :: "payment_record list"
  notifications :: "(string \<times> notification) list"
  outbox :: "email list"
  gatewayOrders :: "order_options list"
  bookingSeq :: int

text \<open>Modelled from the spec: the store's readers of \<open>./data\<close>
  (\<open>getProviderByUsername\<close>, \<open>getPlan\<close>, \<open>getBookingById\<close>), which the spec
  names as external persistent storage of providers, plans and bookings. A missing record
  is \<open>None\<close>.\<close>

definition getProviderByUsername :: "world \<Rightarrow> string \<Rightarrow> provider option" where
  "getProviderByUsername w u = providers w u"

definition getPlan :: "world \<Rightarrow> string \<Rightarrow> plan option" where
  "getPlan w i = plans w i"


text \<open>Modelled from the spec: \<open>updateProvider\<close> of \<open>./data\<close>, which takes a
  \<open>Partial<Provider>\<close>: the fields given replace the stored ones, the others stay
  (the spec: "persist updated plan id, expiry, and trial-used flag", "persists full
  settings back").\<close>

record provider_patch =
  patch_planId :: "string option"
  patch_hasUsedTrial :: "bool option"
  patch_planExpiry :: "date option"
  patch_settings :: "provider_settings option"

definition noPatch :: provider_patch where
  "noPatch = \<lparr>patch_planId = None, patch_hasUsedTrial = None, patch_planExpiry = None,
              patch_settings = None\<rparr>"

definition applyPatch :: "provider_patch \<Rightarrow> provider \<Rightarrow> provider" where
  "applyPatch q p =
     p\<lparr>planId := (case patch_planId q of None \<Rightarrow> planId p | Some i \<Rightarrow> Some i),
       hasUsedTrial := (case patch_hasUsedTrial q of None \<Rightarrow> hasUsedTrial p | Some b \<Rightarrow> b),
       planExpiry := (case patch_planExpiry q of None \<Rightarrow> planExpiry p | Some d \<Rightarrow> Some d),
       settings := (case patch_settings q of None \<Rightarrow> settings p | Some s \<Rightarrow> s)\<rparr>"

definition updateProvider :: "string \<Rightarrow> provider_patch \<Rightarrow> world \<Rightarrow> world" where
  "updateProvider u q w =
     (case providers w u of
        None \<Rightarrow> w
      | Some p \<Rightarrow> w\<lparr>providers := (providers w)(u \<mapsto> applyPatch q p)\<rparr>)"

text \<open>Modelled from the spec: the append-only writers of \<open>./data\<close> and
  \<open>./email-templates\<close> (\<open>createPaymentRecord\<close>, \<open>addNotification\<close>, the
  \<open>send...Email\<close> functions): each one appends its argument to a log.\<close>

definition createPaymentRecord :: "payment_record \<Rightarrow> world \<Rightarrow> world" where
  "createPaymentRecord r w = w\<lparr>paymentRecords := paymentRecords w @ [r]\<rparr>"

definition addNotification :: "string \<Rightarrow> notification \<Rightarrow> world \<Rightarrow> world" where
  "addNotification target n w = w\<lparr>notifications := notifications w @ [(target, n)]\<rparr>"

definition sendEmail :: "email \<Rightarrow> world \<Rightarrow> world" where
  "sendEmail e w = w\<lparr>outbox := outbox w @ [e]\<rparr>"

section \<open>Subscription workflow\<close>

datatype subscription_result =
    SubscriptionFailed string
  | SubscriptionOk provider plan

record subscription_payment =
  sp_razorpay_payment_id :: string
  sp_razorpay_order_id :: string
  sp_amount :: "number option"

definition isRenewal :: "date \<Rightarrow> provider \<Rightarrow> bool" where
  \<comment> \<open>\<open>!!(provider.planId && provider.planExpiry && provider.planExpiry > now)\<close>\<close>
  "isRenewal now p =
     (truthyStr (planId p) \<and> (case planExpiry p of None \<Rightarrow> False | Some e \<Rightarrow> dateLess now e))"

definition baseDateForExpiry :: "date \<Rightarrow> provider \<Rightarrow> date" where
  "baseDateForExpiry now p =
     (if isRenewal now p then (case planExpiry p of Some e \<Rightarrow> e | None \<Rightarrow> now) else now)"

definition newExpiryDate :: "plan \<Rightarrow> date \<Rightarrow> date option" where
  \<comment> \<open>the \<open>switch (plan.duration)\<close>; \<open>None\<close> is its \<open>default\<close>, which throws\<close>
  "newExpiryDate pl base =
     (case plan_duration pl of
        Monthly \<Rightarrow> Some (addMonths base 1)
      | Yearly \<Rightarrow> Some (addYears base 1)
      | Lifetime \<Rightarrow> Some lifetimeExpiry
      | Trial \<Rightarrow> Some (addDays base (orNum (plan_days pl) 7))
      | OtherDuration _ \<Rightarrow> None)"

definition notificationMessage :: "world \<Rightarrow> date \<Rightarrow> provider \<Rightarrow> plan \<Rightarrow> string" where
  "notificationMessage w now p pl =
     (if isRenewal now p then
        (case getPlan w (case planId p of Some i \<Rightarrow> i | None \<Rightarrow> []) of
           Some currentPlan \<Rightarrow>
             if plan_price currentPlan < plan_price pl
             then pname p @ '' has upgraded their plan to '' @ plan_name pl @ ''.''
             else pname p @ '' has renewed their '' @ plan_name pl @ '' plan.''
         | None \<Rightarrow> pname p @ '' has renewed their '' @ plan_name pl @ '' plan.'')
      else pname p @ '' has subscribed to the '' @ plan_name pl @ '' plan.'')"

definition updateProviderSubscription ::
  "date \<Rightarrow> string \<Rightarrow> string \<Rightarrow> subscription_payment \<Rightarrow> world \<Rightarrow> subscription_result \<times> world"
where
  "updateProviderSubscription now u pid pd w =
     (case getPlan w pid of
        None \<Rightarrow> (SubscriptionFailed ''Plan not found'', w)
      | Some pl \<Rightarrow>
     (case getProviderByUsername w u of
        None \<Rightarrow> (SubscriptionFailed ''Provider not found'', w)
      | Some p \<Rightarrow>
        if plan_duration pl = Trial \<and> hasUsedTrial p
        then (SubscriptionFailed
                ''You have already used your trial plan. Please choose a paid plan.'', w)
        else
          let msg = notificationMessage w now p pl in
          (case newExpiryDate pl (baseDateForExpiry now p) of
             None \<Rightarrow> (SubscriptionFailed ''Invalid plan duration'', w)
           | Some e \<Rightarrow>
             let w1 = updateProvider u
                        (noPatch\<lparr>patch_planId := Some (plan_id pl),
                                 patch_hasUsedTrial :=
                                   Some (hasUsedTrial p \<or> plan_duration pl = Trial),
                                 patch_planExpiry := Some e\<rparr>) w;
                 paid = (case sp_amount pd of None \<Rightarrow> False | Some a \<Rightarrow> 0 < a)
             in if paid \<and> (sp_razorpay_payment_id pd = [] \<or> sp_razorpay_order_id pd = [])
                then (SubscriptionFailed ''Payment details are required for paid plans.'', w1)
                else
                  let w2 = (if paid
                            then createPaymentRecord
                                   \<lparr>pr_providerUsername = u, pr_bookingId = None,
                                    pr_planId = plan_id pl,
                                    pr_amount = (case sp_amount pd of Some a \<Rightarrow> a | None \<Rightarrow> 0),
                                    pr_currency = ''INR'',
                                    pr_razorpay_payment_id = sp_razorpay_payment_id pd,
                                    pr_razorpay_order_id = sp_razorpay_order_id pd\<rparr> w1
                            else w1);
                      w3 = (if msg \<noteq> []
                            then addNotification ''admin''
                                   \<lparr>message = msg, ntype = ''general'',
                                    link = ''/admin/providers''\<rparr> w2
                            else w2);
                      w4 = sendEmail (SubscriptionEmail (contactEmail p) (pname p)
                                        (plan_name pl) e (isRenewal now p)) w3
                  in (case getProviderByUsername w4 u of
                        None \<Rightarrow> (SubscriptionFailed
                                   ''Could not re-fetch provider data after update.'', w4)
                      | Some updatedProvider \<Rightarrow> (SubscriptionOk updatedProvider pl, w4)))))"

section \<open>Slot and date blocking workflow\<close>

datatype action_result = ActionOk | ActionFailed string

definition fromSet :: "'a list \<Rightarrow> 'a list" where
  \<comment> \<open>\<open>[...new Set(xs)]\<close>: the elements in the order of their first occurrence\<close>
  "fromSet xs = rev (remdups (rev xs))"

definition updateBlockedSlots :: "string \<Rightarrow> string \<Rightarrow> bool \<Rightarrow> world \<Rightarrow> action_result \<times> world" where
  "updateBlockedSlots u slotISO shouldBlock w =
     (case getProviderByUsername w u of
        None \<Rightarrow> (ActionFailed ''Provider not found'', w)
      | Some p \<Rightarrow>
          let currentBlockedSlots =
                (case blockedSlots (settings p) of None \<Rightarrow> [] | Some xs \<Rightarrow> xs);
              newBlockedSlots =
                (if shouldBlock then currentBlockedSlots @ [slotISO]
                 else filter (\<lambda>s. s \<noteq> slotISO) currentBlockedSlots)
          in (ActionOk,
              updateProvider u
                (noPatch\<lparr>patch_settings :=
                   Some ((settings p)\<lparr>blockedSlots := Some newBlockedSlots\<rparr>)\<rparr>) w))"

definition updateBlockedDates :: "string \<Rightarrow> string list \<Rightarrow> bool \<Rightarrow> world \<Rightarrow> action_result \<times> world" where
  "updateBlockedDates u dates shouldBlock w =
     (case getProviderByUsername w u of
        None \<Rightarrow> (ActionFailed ''Provider not found'', w)
      | Some p \<Rightarrow>
          let currentBlockedDates =
                (case blockedDates (settings p) of None \<Rightarrow> [] | Some xs \<Rightarrow> xs);
              newBlockedDates =
                (if shouldBlock then fromSet (currentBlockedDates @ dates)
                 else filter (\<lambda>d. d \<notin> set dates) currentBlockedDates)
          in (ActionOk,
              updateProvider u
                (noPatch\<lparr>patch_settings :=
                   Some ((settings p)\<lparr>blockedDates := Some newBlockedDates\<rparr>)\<rparr>) w))"

section \<open>Booking workflow\<close>

subsection \<open>Collaborators and inputs\<close>

text \<open>
  What the module calls but does not contain is a parameter: the keyed digest of
  \<open>crypto\<close> (\<open>createHmac('sha256', key).update(body).digest('hex')\<close>), the order
  creation of the gateway client (\<open>None\<close> when it throws), the calendar action (which
  may throw, or return an event id and a meeting link, each possibly absent) and the time
  zone formatter of \<open>date-fns-tz\<close>, which throws a \<open>RangeError\<close> on a time zone
  it does not know (\<open>Inl\<close> of the error's message). The product and the printing
  of numbers are the platform's. The current time is an argument of the functions that
  read the clock.
\<close>

datatype calendar_outcome = CalendarFailed | CalendarEvent "string option" "string option"

record env =
  hmacSha256Hex :: "string \<Rightarrow> string \<Rightarrow> string"
  ordersCreate :: "order_options \<Rightarrow> string option"
  createGoogleCalendarEvent :: "provider \<Rightarrow> booking \<Rightarrow> calendar_outcome"
  formatInTimeZone :: "date \<Rightarrow> string \<Rightarrow> string \<Rightarrow> string + string"
  numberTimes :: "number \<Rightarrow> number \<Rightarrow> number"
  numberToString :: "number \<Rightarrow> string"

text \<open>The fields of a submission that passed \<open>BookingSchema\<close>. The schema itself is
  outside the module: a submission carries the outcome of \<open>safeParse\<close>, the field
  errors or the parsed data, and the raw \<open>customerTimezone\<close> field.\<close>

record booking_form =
  f_providerUsername :: string
  f_customerName :: string
  f_customerEmail :: string
  f_countryCode :: string
  f_customerPhone :: string
  f_serviceType :: string
  f_dateTime :: date
  f_flatHouseNo :: "string option"
  f_landmark :: "string option"
  f_pincode :: "string option"
  f_city :: "string option"
  f_state :: "string option"
  f_country :: "string option"
  f_paymentMethod :: "string option"

type_synonym field_errors = "(string \<times> string list) list"

record submission =
  safeParse :: "field_errors + booking_form"
  customerTimezoneField :: "string option"

type_synonym url_params = "(string \<times> string) list"

fun paramsSet :: "string \<Rightarrow> string \<Rightarrow> url_params \<Rightarrow> url_params" where
  \<comment> \<open>\<open>URLSearchParams.set\<close>: replace the value of the key, or append the pair\<close>
  "paramsSet k v [] = [(k, v)]"
| "paramsSet k v ((k', v') # ps) =
     (if k' = k then (k, v) # filter (\<lambda>kv. fst kv \<noteq> k) ps else (k', v') # paramsSet k v ps)"

datatype booking_result =
    FieldErrors field_errors
  | OrderCreated order string url_params
  | Redirected string url_params
  | Thrown string

text \<open>\<open>OrderCreated order bookingId params\<close> is the returned
  \<open>{order, bookingId, confirmationParams}\<close>; \<open>Redirected path params\<close> is
  \<open>redirect(path + '?' + params.toString())\<close>. The query string is kept as the ordered
  list of pairs it is serialised from.\<close>

definition tpl :: "string option \<Rightarrow> string" where
  \<comment> \<open>an optional string inside a template literal\<close>
  "tpl s = (case s of None \<Rightarrow> ''undefined'' | Some t \<Rightarrow> t)"

definition truthyOrUndefined :: "string option \<Rightarrow> string option" where
  \<comment> \<open>\<open>s || undefined\<close>\<close>
  "truthyOrUndefined s = (if truthyStr s then s else None)"

subsection \<open>The store's booking operations\<close>

text \<open>Modelled from the spec: \<open>addBooking\<close> of \<open>./data\<close> ("persist a new booking in
  Pending status"): the booking is stored under its provider with a fresh id, the given
  status and no payment yet, and the id is returned.\<close>

record new_booking =
  nb_customerName :: string
  nb_customerEmail :: string
  nb_customerPhone :: string
  nb_serviceType :: string
  nb_dateTime :: date
  nb_providerUsername :: string
  nb_address :: "string option"
  nb_flatHouseNo :: "string option"
  nb_landmark :: "string option"
  nb_pincode :: "string option"
  nb_city :: "string option"
  nb_state :: "string option"
  nb_country :: "string option"

definition withId :: "new_booking \<Rightarrow> string \<Rightarrow> booking_status \<Rightarrow> booking" where
  "withId b i st =
     \<lparr>bookingId = i, customerName = nb_customerName b, customerEmail = nb_customerEmail b,
      customerPhone = nb_customerPhone b, serviceType = nb_serviceType b,
      dateTime = nb_dateTime b, providerUsername = nb_providerUsername b,
      address = nb_address b, flatHouseNo = nb_flatHouseNo b, landmark = nb_landmark b,
      pincode = nb_pincode b, city = nb_city b, state = nb_state b, country = nb_country b,
      status = st, bookingPayment = None, googleCalendarEventId = None,
      googleMeetLink = None\<rparr>"

definition addBooking :: "new_booking \<Rightarrow> booking_status \<Rightarrow> world \<Rightarrow> string \<times> world" where
  "addBooking b st w =
     (let i = ''booking-'' @ showInt (bookingSeq w)
      in (i, w\<lparr>bookings := (bookings w)((nb_providerUsername b, i) \<mapsto> withId b i st),
               bookingSeq := bookingSeq w + 1\<rparr>))"

text \<open>Modelled from the spec: \<open>updateBooking\<close> of \<open>./data\<close>, which takes a
  \<open>Partial<Booking>\<close> ("mutated in place to advance status and attach payment/calendar
  data"): the fields given replace the stored ones.\<close>

record booking_patch =
  bp_status :: "booking_status option"
  bp_payment :: "payment option"
  bp_googleCalendarEventId :: "string option"
  bp_googleMeetLink :: "string option"

definition applyBookingPatch :: "booking_patch \<Rightarrow> booking \<Rightarrow> booking" where
  "applyBookingPatch q b =
     b\<lparr>status := (case bp_status q of None \<Rightarrow> status b | Some s \<Rightarrow> s),
       bookingPayment := (case bp_payment q of None \<Rightarrow> bookingPayment b | Some x \<Rightarrow> Some x),
       googleCalendarEventId :=
         (case bp_googleCalendarEventId q of None \<Rightarrow> googleCalendarEventId b | Some x \<Rightarrow> Some x),
       googleMeetLink :=
         (case bp_googleMeetLink q of None \<Rightarrow> googleMeetLink b | Some x \<Rightarrow> Some x)\<rparr>"

definition updateBooking :: "string \<Rightarrow> string \<Rightarrow> booking_patch \<Rightarrow> world \<Rightarrow> world" where
  "updateBooking u i q w =
     (case bookings w (u, i) of
        None \<Rightarrow> w
      | Some b \<Rightarrow> w\<lparr>bookings := (bookings w)((u, i) \<mapsto> applyBookingPatch q b)\<rparr>)"

subsection \<open>Gateway order\<close>

definition createRazorpayOrder ::
  "env \<Rightarrow> date \<Rightarrow> number \<Rightarrow> string \<Rightarrow> string \<Rightarrow> world \<Rightarrow> (string + order) \<times> world" where
  \<comment> \<open>\<open>Inl\<close> is the error thrown\<close>
  "createRazorpayOrder ev now amt cur i w =
     (if \<not> (case razorpay w of
                None \<Rightarrow> False
              | Some r \<Rightarrow> truthyStr (keyId r) \<and> truthyStr (keySecret r))
      then (Inl ''Razorpay settings not configured.'', w)
      else
        let options = \<lparr>oo_amount = numberTimes ev amt 100, oo_currency = cur,
                        oo_receipt = ''receipt_order_'' @ showInt (getTime now),
                        oo_payment_capture = 1\<rparr>;
            w' = w\<lparr>gatewayOrders := gatewayOrders w @ [options]\<rparr>
        in (case ordersCreate ev options of
              None \<Rightarrow> (Inl ''Could not create Razorpay order.'', w')
            | Some oid \<Rightarrow> (Inr \<lparr>order_id = oid, order_options = options\<rparr>, w')))"

subsection \<open>Calendar links\<close>

definition toGoogleISO :: "date \<Rightarrow> string" where
  \<comment> \<open>\<open>date.toISOString().replace(/[-:]/g, '').split('.')[0] + 'Z'\<close>\<close>
  "toGoogleISO d =
     takeWhile (\<lambda>c. c \<noteq> CHR ''.'')
       (filter (\<lambda>c. c \<noteq> CHR ''-'' \<and> c \<noteq> CHR '':'') (toISOString d)) @ ''Z''"

definition crlf :: string where
  "crlf = [char_of (13::nat), char_of (10::nat)]"

fun joinWith :: "string \<Rightarrow> string list \<Rightarrow> string" where
  "joinWith sep [] = []"
| "joinWith sep [x] = x"
| "joinWith sep (x # y # ys) = x @ sep @ joinWith sep (y # ys)"

definition endTimeOf :: "provider \<Rightarrow> date \<Rightarrow> date" where
  \<comment> \<open>\<open>new Date(startTime.getTime() + (provider.settings.slotDuration || 60) * 60 * 1000)\<close>\<close>
  "endTimeOf p startTime =
     addMilliseconds startTime (orNum (slotDuration (settings p)) 60 * 60 * 1000)"

definition googleLinkOf :: "string \<Rightarrow> string \<Rightarrow> string \<Rightarrow> date \<Rightarrow> date \<Rightarrow> string" where
  "googleLinkOf eventTitle eventDescription eventLocation startTime endTime =
     ''https://www.google.com/calendar/render?action=TEMPLATE&text='' @ eventTitle
     @ ''&dates='' @ toGoogleISO startTime @ ''/'' @ toGoogleISO endTime
     @ ''&details='' @ eventDescription @ ''&location='' @ eventLocation"

definition outlookLinkOf :: "string \<Rightarrow> string \<Rightarrow> string \<Rightarrow> date \<Rightarrow> date \<Rightarrow> string" where
  "outlookLinkOf eventTitle eventDescription eventLocation startTime endTime =
     ''https://outlook.live.com/calendar/0/deeplink/compose?path=/calendar/action/compose''
     @ ''&rru=addevent&subject='' @ eventTitle
     @ ''&startdt='' @ toISOString startTime @ ''&enddt='' @ toISOString endTime
     @ ''&body='' @ eventDescription @ ''&location='' @ eventLocation"

definition icsContentOf ::
  "string \<Rightarrow> string \<Rightarrow> string \<Rightarrow> string \<Rightarrow> date \<Rightarrow> date \<Rightarrow> string" where
  "icsContentOf providerTimeZone eventTitle eventDescription eventLocation startTime endTime =
     joinWith crlf
       [''BEGIN:VCALENDAR'', ''VERSION:2.0'', ''BEGIN:VEVENT'',
        ''DTSTART;TZID='' @ providerTimeZone @ '':'' @ butlast (toGoogleISO startTime),
        ''DTEND;TZID='' @ providerTimeZone @ '':'' @ butlast (toGoogleISO endTime),
        ''SUMMARY:'' @ eventTitle, ''DESCRIPTION:'' @ eventDescription,
        ''LOCATION:'' @ eventLocation, ''END:VEVENT'', ''END:VCALENDAR'']"

definition icsLinkOf :: "string \<Rightarrow> string" where
  "icsLinkOf icsContent = ''data:text/calendar;charset=utf-8,'' @ encodeURIComponent icsContent"

definition spaced :: "string \<Rightarrow> string" where
  \<comment> \<open>\<open>tz.replace(/_/g, ' ')\<close>\<close>
  "spaced tz = map (\<lambda>c. if c = CHR ''_'' then CHR '' '' else c) tz"

subsection \<open>Confirmation emails\<close>

text \<open>
  \<open>createBooking\<close> (its branch without the gateway) and \<open>verifyBookingPayment\<close>
  build the display times, the three calendar links and the two emails with the same
  statements, from the form in the first and from the stored booking in the second. The
  model states them once, over the values in which the two places differ. The display
  times come first: the formatter may throw, and neither place catches that before the
  emails.
\<close>

record display_times =
  providerBookingDate :: string
  providerBookingTime :: string
  customerBookingDate :: string
  customerBookingTime :: string

definition formatTimes :: "env \<Rightarrow> provider \<Rightarrow> date \<Rightarrow> string \<Rightarrow> string + display_times" where
  \<comment> \<open>the four \<open>formatInTimeZone\<close> calls, in the order of the source; the first that
      throws ends the sequence with its error\<close>
  "formatTimes ev p dt customerTimezone =
     (let providerTimeZone = timezone (settings p);
          fmt = orStr (dateFormat (settings p)) ''PPP''
      in case formatInTimeZone ev dt providerTimeZone fmt of
           Inl err \<Rightarrow> Inl err
         | Inr pd \<Rightarrow>
        (case formatInTimeZone ev dt providerTimeZone ''p'' of
           Inl err \<Rightarrow> Inl err
         | Inr pt \<Rightarrow>
        (case formatInTimeZone ev dt customerTimezone fmt of
           Inl err \<Rightarrow> Inl err
         | Inr cd \<Rightarrow>
        (case formatInTimeZone ev dt customerTimezone ''p'' of
           Inl err \<Rightarrow> Inl err
         | Inr ct \<Rightarrow>
             Inr \<lparr>providerBookingDate = pd, providerBookingTime = pt,
                  customerBookingDate = cd, customerBookingTime = ct\<rparr>))))"

definition confirmationEmailOf ::
  "display_times \<Rightarrow> provider \<Rightarrow> string \<Rightarrow> string \<Rightarrow> date \<Rightarrow> string option \<Rightarrow> string \<Rightarrow> string
   \<Rightarrow> string option \<Rightarrow> confirmation_email" where
  "confirmationEmailOf t p custName svc dt addr customerTimezone paymentDetails meet =
     (let providerTimeZone = timezone (settings p);
          customerDisplayTime =
            customerBookingTime t @ '' ('' @ spaced customerTimezone @ '')'';
          providerDisplayTime =
            providerBookingTime t @ '' ('' @ spaced providerTimeZone @ '')'';
          eventTitle = encodeURIComponent (''Appointment with '' @ pname p);
          eventDescription =
            encodeURIComponent (''Booking for '' @ svc @ '' with '' @ pname p @ ''.'');
          eventLocation = encodeURIComponent (orStr addr ''Online'');
          startTime = dt;
          endTime = endTimeOf p startTime
      in \<lparr>ce_customerName = custName, ce_providerName = pname p, ce_serviceType = svc,
          ce_bookingDate = customerBookingDate t, ce_bookingTime = customerDisplayTime,
          ce_bookingTimeProvider = providerDisplayTime,
          ce_bookingAddress = orStr addr ''N/A'',
          ce_googleLink = googleLinkOf eventTitle eventDescription eventLocation startTime endTime,
          ce_outlookLink =
            outlookLinkOf eventTitle eventDescription eventLocation startTime endTime,
          ce_icsLink =
            icsLinkOf (icsContentOf providerTimeZone eventTitle eventDescription eventLocation
                         startTime endTime),
          ce_paymentDetails = paymentDetails, ce_googleMeetLink = meet,
          ce_googleMapLink = googleMapLink (settings p)\<rparr>)"

definition providerEmailOf ::
  "display_times \<Rightarrow> provider \<Rightarrow> string \<Rightarrow> string \<Rightarrow> string \<Rightarrow> string \<Rightarrow> string option
   \<Rightarrow> string \<Rightarrow> string option \<Rightarrow> provider_email" where
  "providerEmailOf t p custName custEmail custPhone svc addr paymentDetails meet =
     \<lparr>pe_providerName = pname p, pe_customerName = custName,
      pe_customerEmail = custEmail, pe_customerPhone = custPhone, pe_serviceType = svc,
      pe_bookingDate = providerBookingDate t, pe_bookingTime = providerBookingTime t,
      pe_bookingAddress = orStr addr ''N/A'', pe_paymentDetails = paymentDetails,
      pe_googleMeetLink = meet, pe_googleMapLink = googleMapLink (settings p)\<rparr>"

definition calendarPatch :: "calendar_outcome \<Rightarrow> booking_patch \<Rightarrow> booking_patch" where
  \<comment> \<open>the \<open>try\<close> around the calendar call: a failure changes nothing\<close>
  "calendarPatch c q =
     (case c of
        CalendarFailed \<Rightarrow> q
      | CalendarEvent eventId meetLink \<Rightarrow>
          q\<lparr>bp_googleCalendarEventId :=
               (if truthyStr eventId then eventId else bp_googleCalendarEventId q),
            bp_googleMeetLink :=
               (if truthyStr meetLink then meetLink else bp_googleMeetLink q)\<rparr>)"

definition meetLinkOf :: "calendar_outcome \<Rightarrow> string option" where
  "meetLinkOf c =
     (case c of
        CalendarFailed \<Rightarrow> None
      | CalendarEvent eventId meetLink \<Rightarrow> if truthyStr meetLink then meetLink else None)"

subsection \<open>\<open>createBooking\<close>\<close>

definition isPaidService :: "service_type_setting option \<Rightarrow> bool" where
  \<comment> \<open>\<open>!!(st?.priceEnabled && st.price && st.price > 0)\<close>\<close>
  "isPaidService sts =
     (case sts of
        None \<Rightarrow> False
      | Some st \<Rightarrow> st_priceEnabled st \<and> truthyNum (st_price st)
                   \<and> (case st_price st of None \<Rightarrow> False | Some k \<Rightarrow> 0 < k))"

definition priceOrZero :: "service_type_setting option \<Rightarrow> number" where
  \<comment> \<open>\<open>st?.price || 0\<close>\<close>
  "priceOrZero sts = orNum (case sts of None \<Rightarrow> None | Some st \<Rightarrow> st_price st) 0"

definition fullAddressOf ::
  "service_type_setting option \<Rightarrow> booking_form \<Rightarrow> provider \<Rightarrow> string option" where
  "fullAddressOf sts d p =
     (if map_option st_id sts = Some ''doorstep''
      then Some (tpl (f_flatHouseNo d) @ '', ''
                 @ (if truthyStr (f_landmark d) then tpl (f_landmark d) @ '', '' else [])
                 @ tpl (f_city d) @ '', '' @ tpl (f_state d) @ '' - '' @ tpl (f_pincode d)
                 @ '', '' @ tpl (f_country d))
      else if map_option st_id sts = Some ''shop'' then shopAddress (settings p)
      else Some ''Online'')"

definition bookingOf ::
  "service_type_setting option \<Rightarrow> booking_form \<Rightarrow> string option \<Rightarrow> new_booking" where
  "bookingOf sts d fullAddress =
     (let doorstep = (map_option st_id sts = Some ''doorstep'')
      in \<lparr>nb_customerName = f_customerName d, nb_customerEmail = f_customerEmail d,
          nb_customerPhone = f_countryCode d @ f_customerPhone d,
          nb_serviceType = f_serviceType d, nb_dateTime = f_dateTime d,
          nb_providerUsername = f_providerUsername d,
          nb_address = truthyOrUndefined fullAddress,
          nb_flatHouseNo = (if doorstep then f_flatHouseNo d else None),
          nb_landmark = (if doorstep then f_landmark d else None),
          nb_pincode = (if doorstep then f_pincode d else None),
          nb_city = (if doorstep then f_city d else None),
          nb_state = (if doorstep then f_state d else None),
          nb_country = (if doorstep then f_country d else None)\<rparr>)"

definition confirmationParams ::
  "booking_form \<Rightarrow> provider \<Rightarrow> string \<Rightarrow> string option \<Rightarrow> url_params" where
  "confirmationParams d p customerTimezone fullAddress =
     (paramsSet ''currencyCode'' (currency (settings p))
      \<circ> paramsSet ''customerTimezone'' customerTimezone
      \<circ> paramsSet ''timezone'' (timezone (settings p))
      \<circ> paramsSet ''dateFormat'' (orStr (dateFormat (settings p)) ''PPP'')
      \<circ> (case googleMapLink (settings p) of
           None \<Rightarrow> id
         | Some l \<Rightarrow> if l = [] then id else paramsSet ''googleMapLink'' l)
      \<circ> (case fullAddress of
           None \<Rightarrow> id
         | Some a \<Rightarrow> if a = [] then id else paramsSet ''address'' a)
      \<circ> paramsSet ''providerUsername'' (username p)
      \<circ> paramsSet ''providerEmail'' (contactEmail p)
      \<circ> paramsSet ''providerName'' (pname p)
      \<circ> paramsSet ''dateTime'' (toISOString (f_dateTime d))
      \<circ> paramsSet ''serviceType'' (f_serviceType d)
      \<circ> paramsSet ''customerPhone'' (f_countryCode d @ f_customerPhone d)
      \<circ> paramsSet ''customerEmail'' (f_customerEmail d)
      \<circ> paramsSet ''customerName'' (f_customerName d)) []"

definition pendingPayment :: "number \<Rightarrow> payment" where
  \<comment> \<open>\<open>{status: 'Pending', amount}\<close>\<close>
  "pendingPayment a =
     \<lparr>orderId = None, paymentId = None, amount = Some a, paymentStatus = Some PaymentPending\<rparr>"

definition orderPayment :: "string \<Rightarrow> payment" where
  \<comment> \<open>\<open>{orderId: order.id}\<close>\<close>
  "orderPayment oid =
     \<lparr>orderId = Some oid, paymentId = None, amount = None, paymentStatus = None\<rparr>"

definition noBookingPatch :: booking_patch where
  "noBookingPatch = \<lparr>bp_status = None, bp_payment = None, bp_googleCalendarEventId = None,
                      bp_googleMeetLink = None\<rparr>"

definition confirmWithoutGateway ::
  "env \<Rightarrow> booking_form \<Rightarrow> provider \<Rightarrow> string \<Rightarrow> service_type_setting option
   \<Rightarrow> string option \<Rightarrow> new_booking \<Rightarrow> string \<Rightarrow> url_params \<Rightarrow> world
   \<Rightarrow> booking_result \<times> world" where
  \<comment> \<open>the \<open>else\<close> branch of \<open>createBooking\<close>\<close>
  "confirmWithoutGateway ev d p customerTimezone sts fullAddress b i params w =
     (let paymentDetails =
            (if isPaidService sts \<and> payAfterServiceEnabled (settings p)
                \<and> f_paymentMethod d = Some ''later''
             then ''To be paid after service.'' else ''This is a free booking.'');
          bookingUpdate0 =
            noBookingPatch\<lparr>bp_status := Some Upcoming,
                           bp_payment := Some (pendingPayment (priceOrZero sts))\<rparr>;
          cal = (if googleCalendar p then createGoogleCalendarEvent ev p (withId b i Pending)
                 else CalendarFailed);
          bookingUpdate = calendarPatch cal bookingUpdate0;
          googleMeetLink = meetLinkOf cal;
          w1 = updateBooking (username p) i bookingUpdate w;
          w2 = addNotification (username p)
                 \<lparr>message = ''New booking from '' @ f_customerName d @ '' for ''
                             @ f_serviceType d @ ''.'',
                  ntype = ''new_booking'', link = ''/bookings''\<rparr> w1
      in case formatTimes ev p (f_dateTime d) customerTimezone of
           Inl err \<Rightarrow> (Thrown err, w2)
         | Inr t \<Rightarrow>
             let w3 = sendEmail
                        (BookingConfirmationEmail (f_customerEmail d)
                           (confirmationEmailOf t p (f_customerName d) (f_serviceType d)
                              (f_dateTime d) fullAddress customerTimezone paymentDetails
                              googleMeetLink)) w2;
                 w4 = sendEmail
                        (ProviderBookingNotificationEmail (contactEmail p)
                           (providerEmailOf t p (f_customerName d) (f_customerEmail d)
                              (f_countryCode d @ f_customerPhone d) (f_serviceType d)
                              fullAddress paymentDetails googleMeetLink)) w3;
                 params1 = (case googleMeetLink of
                              None \<Rightarrow> params
                            | Some l \<Rightarrow> paramsSet ''googleMeetLink'' l params);
                 params2 = (if isPaidService sts \<and> f_paymentMethod d = Some ''later''
                            then paramsSet ''totalAmount''
                                   (numberToString ev (priceOrZero sts))
                                   (paramsSet ''amountPaid'' ''0'' params1)
                            else params1)
             in (Redirected ''/confirmation'' params2, w4))"

text \<open>
  In the gateway branch the source passes \<open>serviceTypeSetting.price!\<close>; the branch is
  entered only when the price is a positive number, where it equals \<open>price || 0\<close>. The
  calendar action receives \<open>{...booking, id: bookingId}\<close>, which has no status yet; the
  model hands over the booking as it was stored. A thrown error is the result
  \<open>Thrown\<close>, with the world as the statements before the throw left it.
\<close>

definition createBooking :: "env \<Rightarrow> date \<Rightarrow> submission \<Rightarrow> world \<Rightarrow> booking_result \<times> world" where
  "createBooking ev now sub w =
     (case safeParse sub of
        Inl errors \<Rightarrow> (FieldErrors errors, w)
      | Inr d \<Rightarrow>
     (case getProviderByUsername w (f_providerUsername d) of
        None \<Rightarrow> (Thrown ''Provider not found.'', w)
      | Some p \<Rightarrow>
        let customerTimezone = orStr (customerTimezoneField sub) ''UTC'' in
        if \<not> list_ex (\<lambda>st. st_name st = f_serviceType d \<and> st_enabled st)
                 (serviceTypes (settings p))
        then (FieldErrors
                [(''serviceType'', [''This service type is not valid for this provider.''])],
              w)
        else
          let serviceTypeSetting =
                find (\<lambda>st. st_name st = f_serviceType d) (serviceTypes (settings p));
              fullAddress = fullAddressOf serviceTypeSetting d p;
              b = bookingOf serviceTypeSetting d fullAddress;
              (i, w1) = addBooking b Pending w;
              params = confirmationParams d p customerTimezone fullAddress
          in if isPaidService serviceTypeSetting \<and> onlinePaymentEnabled (settings p)
                \<and> f_paymentMethod d = Some ''online''
             then (case createRazorpayOrder ev now (priceOrZero serviceTypeSetting) ''INR'' i w1
                   of (Inl err, w2) \<Rightarrow> (Thrown err, w2)
                    | (Inr ord, w2) \<Rightarrow>
                        (OrderCreated ord i params,
                         updateBooking (username p) i
                           (noBookingPatch\<lparr>bp_payment := Some (orderPayment (order_id ord))\<rparr>)
                           w2))
             else confirmWithoutGateway ev d p customerTimezone serviceTypeSetting
                    fullAddress b i params w1))"

section \<open>Payment verification workflow\<close>









section \<open>Example data\<close>

text \<open>A provider with one doorstep service of price 500 and one free online service,
  two plans, and the instants used by the examples of the specification.\<close>

definition exampleSettings :: provider_settings where
  "exampleSettings =
     \<lparr>serviceTypes =
        [\<lparr>st_id = ''doorstep'', st_name = ''Home visit'', st_enabled = True,
          st_priceEnabled = True, st_price = Some 500\<rparr>,
         \<lparr>st_id = ''online'', st_name = ''Video call'', st_enabled = True,
          st_priceEnabled = False, st_price = None\<rparr>],
      shopAddress = Some ''12 Market Road'',
      onlinePaymentEnabled = True, payAfterServiceEnabled = True,
      googleMapLink = None, dateFormat = None, timezone = ''Asia/Kolkata'',
      currency = ''INR'', slotDuration = None,
      blockedSlots = Some [''2024-01-15T10:00:00.000Z''],
      blockedDates = Some [''2024-01-20'']\<rparr>"

definition exampleProvider :: provider where
  "exampleProvider =
     \<lparr>username = ''asha'', pname = ''Asha'', contactEmail = ''asha@example.com'',
      settings = exampleSettings, planId = None, planExpiry = None,
      hasUsedTrial = False, googleCalendar = False\<rparr>"

definition monthlyPlan :: plan where
  "monthlyPlan = \<lparr>plan_id = ''pro-monthly'', plan_name = ''Pro'', plan_price = 499,
                   plan_duration = Monthly, plan_days = None\<rparr>"

definition trialPlan :: plan where
  "trialPlan = \<lparr>plan_id = ''trial'', plan_name = ''Trial'', plan_price = 0,
                 plan_duration = Trial, plan_days = None\<rparr>"

definition exampleWorld :: world where
  "exampleWorld =
     \<lparr>providers = [''asha'' \<mapsto> exampleProvider],
      plans = [''pro-monthly'' \<mapsto> monthlyPlan, ''trial'' \<mapsto> trialPlan],
      bookings = Map.empty,
      razorpay = Some \<lparr>keyId = Some ''rzp_test_key'', keySecret = Some ''s3cret''\<rparr>,
      paymentRecords = [], notifications = [], outbox = [], gatewayOrders = [],
      bookingSeq = 1\<rparr>"

definition jan15 :: date where
  "jan15 = \<lparr>year = 2024, month = 0, day = 15, msOfDay = 36000000\<rparr>"

definition feb01 :: date where
  "feb01 = \<lparr>year = 2024, month = 1, day = 1, msOfDay = 0\<rparr>"

definition feb15 :: date where
  "feb15 = \<lparr>year = 2024, month = 1, day = 15, msOfDay = 36000000\<rparr>"

definition mar15 :: date where
  "mar15 = \<lparr>year = 2024, month = 2, day = 15, msOfDay = 36000000\<rparr>"

definition paidWith :: "number \<Rightarrow> subscription_payment" where
  "paidWith a = \<lparr>sp_razorpay_payment_id = ''pay_1'', sp_razorpay_order_id = ''order_1'',
                  sp_amount = Some a\<rparr>"

definition noPayment :: subscription_payment where
  "noPayment = \<lparr>sp_razorpay_payment_id = [], sp_razorpay_order_id = [], sp_amount = None\<rparr>"

definition purchasedProvider :: provider where
  "purchasedProvider =
     exampleProvider\<lparr>planId := Some ''pro-monthly'', planExpiry := Some feb15\<rparr>"

definition worldAfterPurchase :: world where
  "worldAfterPurchase =
     exampleWorld\<lparr>providers := [''asha'' \<mapsto> purchasedProvider],
       paymentRecords :=
         [\<lparr>pr_providerUsername = ''asha'', pr_bookingId = None, pr_planId = ''pro-monthly'',
           pr_amount = 499, pr_currency = ''INR'', pr_razorpay_payment_id = ''pay_1'',
           pr_razorpay_order_id = ''order_1''\<rparr>],
       notifications :=
         [(''admin'', \<lparr>message = ''Asha has subscribed to the Pro plan.'', ntype = ''general'',
                       link = ''/admin/providers''\<rparr>)],
       outbox := [SubscriptionEmail ''asha@example.com'' ''Asha'' ''Pro'' feb15 False]\<rparr>"

text \<open>
  Stand-ins for the collaborators, used where a concrete value is needed: a digest that
  spells out its key and message, a gateway that always answers with order \<open>order_9\<close>,
  no calendar, a formatter that knows the zones \<open>UTC\<close> and \<open>Asia/Kolkata\<close> (it
  prints the instant, the zone and the pattern) and throws on any other, the exact product
  (which is the product of doubles on the whole numbers used here) and a printer of whole
  numbers. A submission for the doorstep service with pay-later chosen, the same with
  online payment chosen, and a provider who has online payment switched off.
\<close>

definition exampleEnv :: env where
  "exampleEnv =
     \<lparr>hmacSha256Hex = (\<lambda>k m. ''digest('' @ k @ '','' @ m @ '')''),
      ordersCreate = (\<lambda>opts. Some ''order_9''),
      createGoogleCalendarEvent = (\<lambda>p b. CalendarFailed),
      formatInTimeZone =
        (\<lambda>d tz fmt. if tz = ''UTC'' \<or> tz = ''Asia/Kolkata''
                     then Inr (toISOString d @ '' '' @ tz @ '' '' @ fmt)
                     else Inl (''Invalid time zone specified: '' @ tz)),
      numberTimes = (\<lambda>a b. a * b),
      numberToString = (\<lambda>n. showInt \<lfloor>n\<rfloor>)\<rparr>"

definition exampleForm :: booking_form where
  "exampleForm =
     \<lparr>f_providerUsername = ''asha'', f_customerName = ''Ravi'',
      f_customerEmail = ''ravi@example.com'', f_countryCode = ''+91'',
      f_customerPhone = ''9800000000'', f_serviceType = ''Home visit'', f_dateTime = jan15,
      f_flatHouseNo = Some ''12B'', f_landmark = Some ''Near Park'',
      f_pincode = Some ''411001'', f_city = Some ''Pune'', f_state = Some ''MH'',
      f_country = Some ''India'', f_paymentMethod = Some ''later''\<rparr>"

definition laterSubmission :: submission where
  "laterSubmission = \<lparr>safeParse = Inr exampleForm, customerTimezoneField = Some ''Asia/Kolkata''\<rparr>"

definition onlineSubmission :: submission where
  "onlineSubmission =
     \<lparr>safeParse = Inr (exampleForm\<lparr>f_paymentMethod := Some ''online''\<rparr>),
      customerTimezoneField = Some ''Asia/Kolkata''\<rparr>"

definition doorstepService :: service_type_setting where
  "doorstepService = \<lparr>st_id = ''doorstep'', st_name = ''Home visit'', st_enabled = True,
                       st_priceEnabled = True, st_price = Some 500\<rparr>"

definition cashOnlyProvider :: provider where
  "cashOnlyProvider =
     exampleProvider\<lparr>settings := exampleSettings\<lparr>onlinePaymentEnabled := False\<rparr>\<rparr>"

definition cashOnlyWorld :: world where
  "cashOnlyWorld = exampleWorld\<lparr>providers := [''asha'' \<mapsto> cashOnlyProvider]\<rparr>"



text \<open>
  More plans, one of each duration class and a trial with its own length, a second
  provider whose monthly plan lapsed on 2024-01-01, a leap day, a submission that names a
  time zone nobody knows, and a world in which the admin has not configured the gateway.
\<close>

definition yearlyPlan :: plan where
  "yearlyPlan = \<lparr>plan_id = ''pro-yearly'', plan_name = ''Pro Yearly'', plan_price = 4999,
                  plan_duration = Yearly, plan_days = None\<rparr>"

definition lifetimePlan :: plan where
  "lifetimePlan = \<lparr>plan_id = ''forever'', plan_name = ''Forever'', plan_price = 19999,
                    plan_duration = Lifetime, plan_days = None\<rparr>"

definition monthTrial :: plan where
  "monthTrial = \<lparr>plan_id = ''trial-30'', plan_name = ''Long trial'', plan_price = 0,
                  plan_duration = Trial, plan_days = Some 30\<rparr>"

definition lapsedProvider :: provider where
  "lapsedProvider =
     \<lparr>username = ''ben'', pname = ''Ben'', contactEmail = ''ben@example.com'',
      settings = exampleSettings, planId = Some ''pro-monthly'',
      planExpiry = Some \<lparr>year = 2024, month = 0, day = 1, msOfDay = 0\<rparr>,
      hasUsedTrial = True, googleCalendar = False\<rparr>"

definition catalogWorld :: world where
  "catalogWorld =
     exampleWorld\<lparr>providers := [''asha'' \<mapsto> exampleProvider, ''ben'' \<mapsto> lapsedProvider],
                  plans := [''pro-monthly'' \<mapsto> monthlyPlan, ''trial'' \<mapsto> trialPlan,
                            ''pro-yearly'' \<mapsto> yearlyPlan, ''forever'' \<mapsto> lifetimePlan,
                            ''trial-30'' \<mapsto> monthTrial]\<rparr>"

definition leapDay :: date where
  "leapDay = \<lparr>year = 2024, month = 1, day = 29, msOfDay = 0\<rparr>"

definition marsSubmission :: submission where
  "marsSubmission =
     \<lparr>safeParse = Inr (exampleForm\<lparr>f_paymentMethod := Some ''online''\<rparr>),
      customerTimezoneField = Some ''Mars/Phobos''\<rparr>"

definition unconfiguredWorld :: world where
  "unconfiguredWorld = exampleWorld\<lparr>razorpay := None\<rparr>"

definition subscriptionPatch :: "plan \<Rightarrow> provider \<Rightarrow> date \<Rightarrow> provider" where
  \<comment> \<open>the provider that \<open>updateProviderSubscription\<close> writes back\<close>
  "subscriptionPatch pl p e =
     p\<lparr>planId := Some (plan_id pl),
       hasUsedTrial := (hasUsedTrial p \<or> plan_duration pl = Trial),
       planExpiry := Some e\<rparr>"

definition submittedBooking :: "booking_form \<Rightarrow> provider \<Rightarrow> new_booking" where
  \<comment> \<open>the booking that \<open>createBooking\<close> hands to \<open>addBooking\<close>\<close>
  "submittedBooking d p =
     (let sts = find (\<lambda>st. st_name st = f_serviceType d) (serviceTypes (settings p))
      in bookingOf sts d (fullAddressOf sts d p))"

definition newBookingId :: "world \<Rightarrow> string" where
  \<comment> \<open>the id that \<open>addBooking\<close> gives to the next booking\<close>
  "newBookingId w = ''booking-'' @ showInt (bookingSeq w)"


section \<open>Properties of dates\<close>

lemma addMonths_month:
  "k \<noteq> 0 \<Longrightarrow> month (addMonths d k) = (year d * 12 + month d + k) mod 12"
  unfolding addMonths_def Let_def by (simp only: if_False date.simps split: if_split) simp

lemma addMonths_year:
  "k \<noteq> 0 \<Longrightarrow> year (addMonths d k) = (year d * 12 + month d + k) div 12"
  unfolding addMonths_def Let_def by (simp only: if_False date.simps split: if_split) simp

lemma addMonths_month_range:
  "k \<noteq> 0 \<Longrightarrow> 0 \<le> month (addMonths d k) \<and> month (addMonths d k) < 12"
  by (simp add: addMonths_month)

lemma idx_later:
  fixes y m k :: int
  assumes "0 < k" "0 \<le> m" "m < 12"
  shows "y < (y * 12 + m + k) div 12 \<or> (y = (y * 12 + m + k) div 12 \<and> m < (y * 12 + m + k) mod 12)"
proof -
  let ?r = "m + k"
  have eq: "y * 12 + m + k = ?r + y * 12" by simp
  have d: "(y * 12 + m + k) div 12 = ?r div 12 + y"
    by (subst eq) simp
  have md: "(y * 12 + m + k) mod 12 = ?r mod 12"
    by (subst eq) simp
  show ?thesis
  proof (cases "?r < 12")
    case True
    then have "?r div 12 = 0" "?r mod 12 = ?r" using assms by simp_all
    then show ?thesis using d md assms by simp
  next
    case False
    then have "12 div 12 \<le> ?r div (12::int)" by (intro zdiv_mono1) simp_all
    then show ?thesis using d by simp
  qed
qed

lemma addMonths_later:
  assumes "0 < k" "0 \<le> month d" "month d < 12"
  shows "dateLess d (addMonths d k)"
proof -
  have k: "k \<noteq> 0" using assms by simp
  have "year d < year (addMonths d k) \<or> (year d = year (addMonths d k) \<and> month d < month (addMonths d k))"
    using idx_later[OF assms, of "year d"] by (simp only: addMonths_month[OF k] addMonths_year[OF k])
  then show ?thesis
    unfolding dateLess_def by blast
qed

section \<open>Properties of the store\<close>

lemma updateProvider_found:
  "providers w u = Some p \<Longrightarrow>
   updateProvider u q w = w\<lparr>providers := (providers w)(u \<mapsto> applyPatch q p)\<rparr>"
  by (simp add: updateProvider_def)

lemma applyPatch_settings:
  "applyPatch (noPatch\<lparr>patch_settings := Some s\<rparr>) p = p\<lparr>settings := s\<rparr>"
  by (simp add: applyPatch_def noPatch_def)

lemma log_frames [simp]:
  "providers (createPaymentRecord r w) = providers w"
  "providers (addNotification t n w) = providers w"
  "providers (sendEmail e w) = providers w"
  "plans (createPaymentRecord r w) = plans w"
  "plans (addNotification t n w) = plans w"
  "plans (sendEmail e w) = plans w"
  by (simp_all add: createPaymentRecord_def addNotification_def sendEmail_def)

lemma updateProvider_frames [simp]:
  "plans (updateProvider u q w) = plans w"
  "providers w u = Some p \<Longrightarrow> providers (updateProvider u q w) u = Some (applyPatch q p)"
  by (simp_all add: updateProvider_def split: option.splits)

section \<open>Properties of the subscription workflow\<close>

lemmas example_defs = exampleWorld_def exampleProvider_def monthlyPlan_def trialPlan_def
  jan15_def paidWith_def

lemmas workflow_defs = updateProviderSubscription_def getPlan_def getProviderByUsername_def
  updateProvider_def applyPatch_def noPatch_def createPaymentRecord_def addNotification_def
  sendEmail_def notificationMessage_def isRenewal_def baseDateForExpiry_def newExpiryDate_def
  truthyStr_def orNum_def Let_def

lemma isRenewal_after:
  "planId p = Some i \<Longrightarrow> i \<noteq> [] \<Longrightarrow> planExpiry p = Some e \<Longrightarrow> dateLess now e \<Longrightarrow>
   baseDateForExpiry now p = e"
  by (simp add: baseDateForExpiry_def isRenewal_def truthyStr_def)

lemma sub_ok_D:
  assumes "updateProviderSubscription now u pid pd w = (SubscriptionOk p' pl', w')"
  shows "\<exists>p e. getPlan w pid = Some pl' \<and> getProviderByUsername w u = Some p
           \<and> \<not> (plan_duration pl' = Trial \<and> hasUsedTrial p)
           \<and> newExpiryDate pl' (baseDateForExpiry now p) = Some e
           \<and> p' = subscriptionPatch pl' p e
           \<and> providers w' u = Some p' \<and> plans w' = plans w"
proof -
  obtain pl where pl: "getPlan w pid = Some pl"
    using assms by (auto simp: updateProviderSubscription_def split: option.splits)
  obtain p where p: "getProviderByUsername w u = Some p"
    using assms pl by (auto simp: updateProviderSubscription_def split: option.splits)
  have nt: "\<not> (plan_duration pl = Trial \<and> hasUsedTrial p)"
    using assms pl p by (auto simp: updateProviderSubscription_def split: if_splits)
  obtain e where e: "newExpiryDate pl (baseDateForExpiry now p) = Some e"
    using assms pl p nt
    by (cases "newExpiryDate pl (baseDateForExpiry now p)")
       (auto simp: updateProviderSubscription_def Let_def)
  have pw: "providers w u = Some p" using p by (simp add: getProviderByUsername_def)
  have ap: "applyPatch (noPatch\<lparr>patch_planId := Some (plan_id pl),
                patch_hasUsedTrial := Some (hasUsedTrial p \<or> plan_duration pl = Trial),
                patch_planExpiry := Some e\<rparr>) p = subscriptionPatch pl p e"
    by (simp add: applyPatch_def noPatch_def subscriptionPatch_def)
  have "pl' = pl \<and> p' = subscriptionPatch pl p e \<and> providers w' u = Some p' \<and> plans w' = plans w"
    using assms pl p nt e pw ap
    by (auto simp: updateProviderSubscription_def Let_def getProviderByUsername_def
        split: if_splits)
  then show ?thesis using pl p nt e by auto
qed

lemma sub_step_world:
  assumes prov: "getProviderByUsername w u = Some p"
      and step: "updateProviderSubscription now u pid pd w = (r, w1)"
  shows "(w1 = w \<and> (\<forall>pl. getPlan w pid = Some pl \<and> plan_duration pl = Trial \<longrightarrow>
              hasUsedTrial p \<and> r = SubscriptionFailed
                ''You have already used your trial plan. Please choose a paid plan.''))
       \<or> (\<exists>pl e. getPlan w pid = Some pl \<and> providers w1 u = Some (subscriptionPatch pl p e)
              \<and> plans w1 = plans w)"
proof (cases "getPlan w pid")
  case None
  then show ?thesis using step by (simp add: updateProviderSubscription_def)
next
  case (Some pl)
  show ?thesis
  proof (cases "plan_duration pl = Trial \<and> hasUsedTrial p")
    case True
    then show ?thesis using step Some prov by (simp add: updateProviderSubscription_def)
  next
    case False
    show ?thesis
    proof (cases "newExpiryDate pl (baseDateForExpiry now p)")
      case None
      then have "plan_duration pl \<noteq> Trial"
        by (auto simp: newExpiryDate_def split: duration_class.splits)
      then show ?thesis using step Some prov False None
        by (simp add: updateProviderSubscription_def Let_def)
    next
      case (Some e)
      have pw: "providers w u = Some p" using prov by (simp add: getProviderByUsername_def)
      have ap: "applyPatch (noPatch\<lparr>patch_planId := Some (plan_id pl),
                patch_hasUsedTrial := Some (hasUsedTrial p \<or> plan_duration pl = Trial),
                patch_planExpiry := Some e\<rparr>) p = subscriptionPatch pl p e"
        by (simp add: applyPatch_def noPatch_def subscriptionPatch_def)
      have "providers w1 u = Some (subscriptionPatch pl p e) \<and> plans w1 = plans w"
        using step \<open>getPlan w pid = Some pl\<close> prov False Some pw ap
        by (auto simp: updateProviderSubscription_def Let_def getProviderByUsername_def
            split: if_splits)
      then show ?thesis using \<open>getPlan w pid = Some pl\<close> by blast
    qed
  qed
qed

lemma trial_rejected:
  assumes "getProviderByUsername w u = Some p" "getPlan w pid = Some pl"
    "plan_duration pl = Trial" "hasUsedTrial p"
  shows "updateProviderSubscription now u pid pd w =
    (SubscriptionFailed ''You have already used your trial plan. Please choose a paid plan.'', w)"
  using assms by (simp add: updateProviderSubscription_def)

lemma example_purchase_full:
  "updateProviderSubscription jan15 ''asha'' ''pro-monthly'' (paidWith 499) exampleWorld
   = (SubscriptionOk purchasedProvider monthlyPlan, worldAfterPurchase)"
  by (simp add: workflow_defs example_defs addMonths_def daysInMonth_def
      worldAfterPurchase_def purchasedProvider_def feb15_def)

lemma isRenewal_purchased: "isRenewal feb01 purchasedProvider"
  by (simp add: isRenewal_def truthyStr_def purchasedProvider_def feb15_def feb01_def dateLess_def)

lemma addMonths_feb15: "addMonths feb15 1 = mar15"
  by (simp add: addMonths_def feb15_def mar15_def daysInMonth_def)

lemma example_renewal:
  "fst (updateProviderSubscription feb01 ''asha'' ''pro-monthly'' (paidWith 499)
         worldAfterPurchase)
   = SubscriptionOk (purchasedProvider\<lparr>planExpiry := Some mar15\<rparr>) monthlyPlan"
proof -
  have pl: "getPlan worldAfterPurchase ''pro-monthly'' = Some monthlyPlan"
    by (simp add: getPlan_def worldAfterPurchase_def exampleWorld_def)
  have pr: "getProviderByUsername worldAfterPurchase ''asha'' = Some purchasedProvider"
    by (simp add: getProviderByUsername_def worldAfterPurchase_def)
  have ex: "newExpiryDate monthlyPlan (baseDateForExpiry feb01 purchasedProvider) = Some mar15"
    using isRenewal_purchased addMonths_feb15
    by (simp add: newExpiryDate_def baseDateForExpiry_def monthlyPlan_def purchasedProvider_def)
  have pw: "providers worldAfterPurchase ''asha'' = Some purchasedProvider"
    by (simp add: worldAfterPurchase_def)
  have ap: "applyPatch (noPatch\<lparr>patch_planId := Some (plan_id monthlyPlan),
                patch_hasUsedTrial := Some (hasUsedTrial purchasedProvider \<or> plan_duration monthlyPlan = Trial),
                patch_planExpiry := Some mar15\<rparr>) purchasedProvider
            = purchasedProvider\<lparr>planExpiry := Some mar15\<rparr>"
    by (simp add: applyPatch_def noPatch_def monthlyPlan_def purchasedProvider_def exampleProvider_def)
  have nt: "plan_duration monthlyPlan \<noteq> Trial" by (simp add: monthlyPlan_def)
  show ?thesis
    using pl pr ex pw ap nt
    by (simp add: updateProviderSubscription_def Let_def paidWith_def getProviderByUsername_def)
qed

lemma date_examples:
  "addMonths \<lparr>year = 2024, month = 0, day = 15, msOfDay = 36000000\<rparr> 1
     = \<lparr>year = 2024, month = 1, day = 15, msOfDay = 36000000\<rparr>"
  "addYears \<lparr>year = 2024, month = 0, day = 15, msOfDay = 36000000\<rparr> 1
     = \<lparr>year = 2025, month = 0, day = 15, msOfDay = 36000000\<rparr>"
  "addYears \<lparr>year = 2024, month = 1, day = 29, msOfDay = 0\<rparr> 1
     = \<lparr>year = 2025, month = 1, day = 28, msOfDay = 0\<rparr>"
  "addDays \<lparr>year = 2024, month = 0, day = 15, msOfDay = 36000000\<rparr> 7
     = \<lparr>year = 2024, month = 0, day = 22, msOfDay = 36000000\<rparr>"
  "addDays \<lparr>year = 2024, month = 0, day = 15, msOfDay = 36000000\<rparr> 30
     = \<lparr>year = 2024, month = 1, day = 14, msOfDay = 36000000\<rparr>"
  by code_simp+

lemmas catalog_defs = catalogWorld_def exampleWorld_def exampleProvider_def lapsedProvider_def
  monthlyPlan_def trialPlan_def yearlyPlan_def lifetimePlan_def monthTrial_def jan15_def
  leapDay_def paidWith_def noPayment_def lifetimeExpiry_def dateLess_def

lemma yearly_ok:
  "fst (updateProviderSubscription jan15 ''asha'' ''pro-yearly'' (paidWith 4999) catalogWorld)
   = SubscriptionOk
       (exampleProvider\<lparr>planId := Some ''pro-yearly'',
          planExpiry := Some \<lparr>year = 2025, month = 0, day = 15, msOfDay = 36000000\<rparr>\<rparr>)
       yearlyPlan"
  by (simp add: workflow_defs catalog_defs date_examples)

lemma leap_yearly_ok:
  "fst (updateProviderSubscription leapDay ''asha'' ''pro-yearly'' (paidWith 4999) catalogWorld)
   = SubscriptionOk
       (exampleProvider\<lparr>planId := Some ''pro-yearly'',
          planExpiry := Some \<lparr>year = 2025, month = 1, day = 28, msOfDay = 0\<rparr>\<rparr>)
       yearlyPlan"
  by (simp add: workflow_defs catalog_defs date_examples)

lemma trial_ok:
  "fst (updateProviderSubscription jan15 ''asha'' ''trial'' noPayment catalogWorld)
   = SubscriptionOk
       (exampleProvider\<lparr>planId := Some ''trial'', hasUsedTrial := True,
          planExpiry := Some \<lparr>year = 2024, month = 0, day = 22, msOfDay = 36000000\<rparr>\<rparr>)
       trialPlan"
  by (simp add: workflow_defs catalog_defs date_examples)

lemma month_trial_ok:
  "fst (updateProviderSubscription jan15 ''asha'' ''trial-30'' noPayment catalogWorld)
   = SubscriptionOk
       (exampleProvider\<lparr>planId := Some ''trial-30'', hasUsedTrial := True,
          planExpiry := Some \<lparr>year = 2024, month = 1, day = 14, msOfDay = 36000000\<rparr>\<rparr>)
       monthTrial"
  by (simp add: workflow_defs catalog_defs date_examples)

lemma lifetime_ok:
  "fst (updateProviderSubscription jan15 ''asha'' ''forever'' (paidWith 19999) catalogWorld)
   = SubscriptionOk
       (exampleProvider\<lparr>planId := Some ''forever'',
          planExpiry := Some \<lparr>year = 9999, month = 11, day = 31, msOfDay = 0\<rparr>\<rparr>)
       lifetimePlan"
  by (simp add: workflow_defs catalog_defs date_examples)

lemma lapsed_ok:
  "fst (updateProviderSubscription jan15 ''ben'' ''pro-monthly'' (paidWith 499) catalogWorld)
   = SubscriptionOk
       (lapsedProvider\<lparr>planId := Some ''pro-monthly'',
          planExpiry := Some \<lparr>year = 2024, month = 1, day = 15, msOfDay = 36000000\<rparr>\<rparr>)
       monthlyPlan"
  by (simp add: workflow_defs catalog_defs date_examples)

lemma catalog_lookup:
  "getProviderByUsername catalogWorld ''asha'' = Some exampleProvider"
  "getProviderByUsername catalogWorld ''ben'' = Some lapsedProvider"
  "getProviderByUsername worldAfterPurchase ''asha'' = Some purchasedProvider"
  "getProviderByUsername exampleWorld ''asha'' = Some exampleProvider"
  by (simp_all add: getProviderByUsername_def catalogWorld_def worldAfterPurchase_def
      exampleWorld_def)

lemma fresh_base:
  "(case planExpiry exampleProvider of
      Some e \<Rightarrow> if planId exampleProvider \<noteq> None \<and> planId exampleProvider \<noteq> Some []
                   \<and> dateLess now e then e else now
    | None \<Rightarrow> now) = now"
  by (simp add: exampleProvider_def)

lemma lapsed_base:
  "(case planExpiry lapsedProvider of
      Some e \<Rightarrow> if planId lapsedProvider \<noteq> None \<and> planId lapsedProvider \<noteq> Some []
                   \<and> dateLess jan15 e then e else jan15
    | None \<Rightarrow> jan15) = jan15"
  by (simp add: lapsedProvider_def jan15_def dateLess_def)

lemma renewing_base:
  "(case planExpiry purchasedProvider of
      Some e \<Rightarrow> if planId purchasedProvider \<noteq> None \<and> planId purchasedProvider \<noteq> Some []
                   \<and> dateLess feb01 e then e else feb01
    | None \<Rightarrow> feb01) = feb15"
  by (simp add: purchasedProvider_def feb01_def feb15_def dateLess_def)

lemma plan_classes:
  "plan_duration monthlyPlan = Monthly" "plan_duration yearlyPlan = Yearly"
  "plan_duration trialPlan = Trial" "plan_duration monthTrial = Trial"
  "plan_duration lifetimePlan = Lifetime"
  "plan_days trialPlan = None" "plan_days monthTrial = Some 30"
  by (simp_all add: monthlyPlan_def yearlyPlan_def trialPlan_def monthTrial_def
      lifetimePlan_def)

lemma date_examples2:
  "addMonths jan15 1 = feb15" "addMonths feb15 1 = mar15"
  "addYears jan15 1 = \<lparr>year = 2025, month = 0, day = 15, msOfDay = 36000000\<rparr>"
  "addYears leapDay 1 = \<lparr>year = 2025, month = 1, day = 28, msOfDay = 0\<rparr>"
  "addDays jan15 7 = \<lparr>year = 2024, month = 0, day = 22, msOfDay = 36000000\<rparr>"
  "addDays jan15 30 = \<lparr>year = 2024, month = 1, day = 14, msOfDay = 36000000\<rparr>"
  by code_simp+

text \<open>
  Claim C2. After a successful \<open>updateProviderSubscription\<close> the stored provider is the
  one returned, and its \<open>planExpiry\<close> is the duration-class function of the base date:
  the base date is the previous expiry when a plan id is set and that expiry is strictly
  after now, and now otherwise; monthly gives base + 1 month, yearly base + 1 year, trial
  base + \<open>plan.days || 7\<close> days (so an unset or zero \<open>days\<close> gives 7), lifetime the
  fixed date 9999-12-31.
\<close>

theorem subscription_expiry_by_duration_class:
  assumes ok: "updateProviderSubscription now u pid pd w = (SubscriptionOk p' pl, w')"
      and prov: "getProviderByUsername w u = Some p"
  shows "getPlan w pid = Some pl \<and> providers w' u = Some p' \<and>
     (let base = (case planExpiry p of
                    Some e \<Rightarrow> if planId p \<noteq> None \<and> planId p \<noteq> Some [] \<and> dateLess now e
                              then e else now
                  | None \<Rightarrow> now)
      in (plan_duration pl = Monthly \<longrightarrow> planExpiry p' = Some (addMonths base 1))
       \<and> (plan_duration pl = Yearly \<longrightarrow> planExpiry p' = Some (addYears base 1))
       \<and> (plan_duration pl = Trial \<longrightarrow>
            planExpiry p' = Some (addDays base
              (case plan_days pl of None \<Rightarrow> 7 | Some n \<Rightarrow> if n = 0 then 7 else n)))
       \<and> (plan_duration pl = Lifetime \<longrightarrow>
            planExpiry p' = Some \<lparr>year = 9999, month = 11, day = 31, msOfDay = 0\<rparr>))"
proof -
  from sub_ok_D [OF ok] prov obtain e where
    a: "getPlan w pid = Some pl" "newExpiryDate pl (baseDateForExpiry now p) = Some e"
       "p' = subscriptionPatch pl p e" "providers w' u = Some p'"
    by auto
  have b: "baseDateForExpiry now p =
      (case planExpiry p of
         Some e \<Rightarrow> if planId p \<noteq> None \<and> planId p \<noteq> Some [] \<and> dateLess now e then e else now
       | None \<Rightarrow> now)"
    by (auto simp: baseDateForExpiry_def isRenewal_def truthyStr_def split: option.splits)
  have c: "planExpiry p' = Some e" using a(3) by (simp add: subscriptionPatch_def)
  show ?thesis
    unfolding Let_def b[symmetric] c
    using a(1,2,4)
    by (auto simp: newExpiryDate_def orNum_def lifetimeExpiry_def split: option.splits)
qed

text \<open>
  One purchase of every class, through the theorem. The example of the specification, a
  monthly plan bought on 2024-01-15 by a provider without a subscription, expires on
  2024-02-15 (months count from 0). A yearly plan bought that day expires on 2025-01-15,
  and bought on the leap day 2024-02-29 on 2025-02-28. A trial without \<open>days\<close> runs 7
  days, to 2024-01-22; a trial of 30 days runs to 2024-02-14. A lifetime plan expires on
  9999-12-31. A renewal on 2024-02-01 of the plan that expires on 2024-02-15 counts from
  that expiry, to 2024-03-15; a purchase on 2024-01-15 by the provider whose plan lapsed
  on 2024-01-01 counts from the day of purchase.
\<close>

theorem subscription_expiry_by_duration_class_witness:
  "planExpiry exampleProvider = None
   \<and> map_option planExpiry
        (providers (snd (updateProviderSubscription jan15 ''asha'' ''pro-monthly''
                           (paidWith 499) exampleWorld)) ''asha'')
       = Some (Some (addMonths jan15 1))
   \<and> jan15 = \<lparr>year = 2024, month = 0, day = 15, msOfDay = 36000000\<rparr>
   \<and> addMonths jan15 1 = \<lparr>year = 2024, month = 1, day = 15, msOfDay = 36000000\<rparr>
   \<and> map_option planExpiry
        (providers (snd (updateProviderSubscription jan15 ''asha'' ''pro-yearly''
                           (paidWith 4999) catalogWorld)) ''asha'')
       = Some (Some (addYears jan15 1))
   \<and> addYears jan15 1 = \<lparr>year = 2025, month = 0, day = 15, msOfDay = 36000000\<rparr>
   \<and> map_option planExpiry
        (providers (snd (updateProviderSubscription leapDay ''asha'' ''pro-yearly''
                           (paidWith 4999) catalogWorld)) ''asha'')
       = Some (Some (addYears leapDay 1))
   \<and> leapDay = \<lparr>year = 2024, month = 1, day = 29, msOfDay = 0\<rparr>
   \<and> addYears leapDay 1 = \<lparr>year = 2025, month = 1, day = 28, msOfDay = 0\<rparr>
   \<and> plan_days trialPlan = None
   \<and> map_option planExpiry
        (providers (snd (updateProviderSubscription jan15 ''asha'' ''trial''
                           noPayment catalogWorld)) ''asha'')
       = Some (Some (addDays jan15 7))
   \<and> addDays jan15 7 = \<lparr>year = 2024, month = 0, day = 22, msOfDay = 36000000\<rparr>
   \<and> plan_days monthTrial = Some 30
   \<and> map_option planExpiry
        (providers (snd (updateProviderSubscription jan15 ''asha'' ''trial-30''
                           noPayment catalogWorld)) ''asha'')
       = Some (Some (addDays jan15 30))
   \<and> addDays jan15 30 = \<lparr>year = 2024, month = 1, day = 14, msOfDay = 36000000\<rparr>
   \<and> map_option planExpiry
        (providers (snd (updateProviderSubscription jan15 ''asha'' ''forever''
                           (paidWith 19999) catalogWorld)) ''asha'')
       = Some (Some \<lparr>year = 9999, month = 11, day = 31, msOfDay = 0\<rparr>)
   \<and> planExpiry purchasedProvider = Some feb15 \<and> dateLess feb01 feb15
   \<and> map_option planExpiry
        (providers (snd (updateProviderSubscription feb01 ''asha'' ''pro-monthly''
                           (paidWith 499) worldAfterPurchase)) ''asha'')
       = Some (Some (addMonths feb15 1))
   \<and> addMonths feb15 1 = \<lparr>year = 2024, month = 2, day = 15, msOfDay = 36000000\<rparr>
   \<and> planExpiry lapsedProvider = Some \<lparr>year = 2024, month = 0, day = 1, msOfDay = 0\<rparr>
   \<and> map_option planExpiry
        (providers (snd (updateProviderSubscription jan15 ''ben'' ''pro-monthly''
                           (paidWith 499) catalogWorld)) ''ben'')
       = Some (Some (addMonths jan15 1))"
proof -
  have pair: "fst x = a \<Longrightarrow> x = (a, snd x)" for x :: "subscription_result \<times> world" and a
    by (simp add: prod_eq_iff)
  note T = subscription_expiry_by_duration_class
  have monthly:
    "map_option planExpiry (providers (snd (updateProviderSubscription now u pid pd w)) u)
       = Some (Some (addMonths base 1))"
    if "fst (updateProviderSubscription now u pid pd w) = SubscriptionOk p' pl"
       "getProviderByUsername w u = Some p" "plan_duration pl = Monthly"
       "(case planExpiry p of
           Some e \<Rightarrow> if planId p \<noteq> None \<and> planId p \<noteq> Some [] \<and> dateLess now e
                     then e else now
         | None \<Rightarrow> now) = base"
    for now u pid pd w p' pl p base
    using T[OF pair[OF that(1)] that(2), unfolded Let_def that(4)] that(3) by simp
  have yearly:
    "map_option planExpiry (providers (snd (updateProviderSubscription now u pid pd w)) u)
       = Some (Some (addYears base 1))"
    if "fst (updateProviderSubscription now u pid pd w) = SubscriptionOk p' pl"
       "getProviderByUsername w u = Some p" "plan_duration pl = Yearly"
       "(case planExpiry p of
           Some e \<Rightarrow> if planId p \<noteq> None \<and> planId p \<noteq> Some [] \<and> dateLess now e
                     then e else now
         | None \<Rightarrow> now) = base"
    for now u pid pd w p' pl p base
    using T[OF pair[OF that(1)] that(2), unfolded Let_def that(4)] that(3) by simp
  have trial:
    "map_option planExpiry (providers (snd (updateProviderSubscription now u pid pd w)) u)
       = Some (Some (addDays base
                       (case plan_days pl of None \<Rightarrow> 7 | Some n \<Rightarrow> if n = 0 then 7 else n)))"
    if "fst (updateProviderSubscription now u pid pd w) = SubscriptionOk p' pl"
       "getProviderByUsername w u = Some p" "plan_duration pl = Trial"
       "(case planExpiry p of
           Some e \<Rightarrow> if planId p \<noteq> None \<and> planId p \<noteq> Some [] \<and> dateLess now e
                     then e else now
         | None \<Rightarrow> now) = base"
    for now u pid pd w p' pl p base
    using T[OF pair[OF that(1)] that(2), unfolded Let_def that(4)] that(3) by simp
  have lifetime:
    "map_option planExpiry (providers (snd (updateProviderSubscription now u pid pd w)) u)
       = Some (Some \<lparr>year = 9999, month = 11, day = 31, msOfDay = 0\<rparr>)"
    if "fst (updateProviderSubscription now u pid pd w) = SubscriptionOk p' pl"
       "getProviderByUsername w u = Some p" "plan_duration pl = Lifetime"
    for now u pid pd w p' pl p
    using T[OF pair[OF that(1)] that(2), unfolded Let_def] that(3) by simp
  have first: "fst (updateProviderSubscription jan15 ''asha'' ''pro-monthly''
                           (paidWith 499) exampleWorld)
               = SubscriptionOk purchasedProvider monthlyPlan"
    by (simp add: example_purchase_full)
  have c1: "map_option planExpiry
        (providers (snd (updateProviderSubscription jan15 ''asha'' ''pro-monthly''
                           (paidWith 499) exampleWorld)) ''asha'')
       = Some (Some (addMonths jan15 1))"
    by (rule monthly[OF first catalog_lookup(4) plan_classes(1) fresh_base])
  have c2: "map_option planExpiry
        (providers (snd (updateProviderSubscription jan15 ''asha'' ''pro-yearly''
                           (paidWith 4999) catalogWorld)) ''asha'')
       = Some (Some (addYears jan15 1))"
    by (rule yearly[OF yearly_ok catalog_lookup(1) plan_classes(2) fresh_base])
  have c3: "map_option planExpiry
        (providers (snd (updateProviderSubscription leapDay ''asha'' ''pro-yearly''
                           (paidWith 4999) catalogWorld)) ''asha'')
       = Some (Some (addYears leapDay 1))"
    by (rule yearly[OF leap_yearly_ok catalog_lookup(1) plan_classes(2) fresh_base])
  have c4: "map_option planExpiry
        (providers (snd (updateProviderSubscription jan15 ''asha'' ''trial''
                           noPayment catalogWorld)) ''asha'')
       = Some (Some (addDays jan15 7))"
    using trial[OF trial_ok catalog_lookup(1) plan_classes(3) fresh_base]
    by (simp add: plan_classes)
  have c5: "map_option planExpiry
        (providers (snd (updateProviderSubscription jan15 ''asha'' ''trial-30''
                           noPayment catalogWorld)) ''asha'')
       = Some (Some (addDays jan15 30))"
    using trial[OF month_trial_ok catalog_lookup(1) plan_classes(4) fresh_base]
    by (simp add: plan_classes)
  have c6: "map_option planExpiry
        (providers (snd (updateProviderSubscription jan15 ''asha'' ''forever''
                           (paidWith 19999) catalogWorld)) ''asha'')
       = Some (Some \<lparr>year = 9999, month = 11, day = 31, msOfDay = 0\<rparr>)"
    by (rule lifetime[OF lifetime_ok catalog_lookup(1) plan_classes(5)])
  have c7: "map_option planExpiry
        (providers (snd (updateProviderSubscription feb01 ''asha'' ''pro-monthly''
                           (paidWith 499) worldAfterPurchase)) ''asha'')
       = Some (Some (addMonths feb15 1))"
    by (rule monthly[OF example_renewal catalog_lookup(3) plan_classes(1) renewing_base])
  have c8: "map_option planExpiry
        (providers (snd (updateProviderSubscription jan15 ''ben'' ''pro-monthly''
                           (paidWith 499) catalogWorld)) ''ben'')
       = Some (Some (addMonths jan15 1))"
    by (rule monthly[OF lapsed_ok catalog_lookup(2) plan_classes(1) lapsed_base])
  have f: "planExpiry exampleProvider = None" by (simp add: exampleProvider_def)
  have g: "planExpiry purchasedProvider = Some feb15" "dateLess feb01 feb15"
          "planExpiry lapsedProvider = Some \<lparr>year = 2024, month = 0, day = 1, msOfDay = 0\<rparr>"
    by (simp_all add: purchasedProvider_def lapsedProvider_def feb01_def feb15_def dateLess_def)
  have m: "addMonths jan15 1 = \<lparr>year = 2024, month = 1, day = 15, msOfDay = 36000000\<rparr>"
          "addMonths feb15 1 = \<lparr>year = 2024, month = 2, day = 15, msOfDay = 36000000\<rparr>"
    using date_examples2(1,2) by (simp_all add: feb15_def mar15_def)
  show ?thesis
    by (intro conjI f c1 jan15_def m(1) c2 date_examples2(3) c3 leapDay_def date_examples2(4)
        plan_classes(6) c4 date_examples2(5) plan_classes(7) c5 date_examples2(6) c6 g(1,2)
        c7 m(2) g(3) c8)
qed

text \<open>
  Claim C7. Two successful applications of the same plan in sequence, the second made
  strictly before the expiry set by the first has lapsed: the second expiry is not before
  the first. The plan's id is a non-empty string (an empty \<open>planId\<close> is falsy, and the
  second call would then count from now). A trial plan cannot succeed twice, so the plan
  is monthly, yearly or lifetime.
\<close>

theorem renewal_never_shrinks:
  assumes first: "updateProviderSubscription now1 u pid pd1 w0 = (SubscriptionOk p1 pl, w1)"
      and second: "updateProviderSubscription now2 u pid pd2 w1 = (SubscriptionOk p2 pl, w2)"
      and e1: "planExpiry p1 = Some e1"
      and notLapsed: "dateLess now2 e1"
      and planIdSet: "plan_id pl \<noteq> []"
  shows "\<exists>e2. planExpiry p2 = Some e2 \<and> dateLeq e1 e2"
proof -
  from sub_ok_D [OF first] obtain p0 x where
    a: "newExpiryDate pl (baseDateForExpiry now1 p0) = Some x" "p1 = subscriptionPatch pl p0 x"
       "providers w1 u = Some p1"
    by blast
  from sub_ok_D [OF second] obtain q e2 where
    b: "getProviderByUsername w1 u = Some q" "\<not> (plan_duration pl = Trial \<and> hasUsedTrial q)"
       "newExpiryDate pl (baseDateForExpiry now2 q) = Some e2" "p2 = subscriptionPatch pl q e2"
    by blast
  have q: "q = p1" using a(3) b(1) by (simp add: getProviderByUsername_def)
  have x: "x = e1" using a(2) e1 by (simp add: subscriptionPatch_def)
  have notTrial: "plan_duration pl \<noteq> Trial"
    using b(2) q a(2) by (auto simp: subscriptionPatch_def)
  have base: "baseDateForExpiry now2 p1 = e1"
    using a(2) x planIdSet notLapsed by (intro isRenewal_after[where i = "plan_id pl"]) (simp_all add: subscriptionPatch_def)
  have e2: "newExpiryDate pl e1 = Some e2" using b(3) q base by simp
  have e1': "newExpiryDate pl (baseDateForExpiry now1 p0) = Some e1" using a(1) x by simp
  have "dateLeq e1 e2"
  proof (cases "plan_duration pl")
    case Monthly
    then have "0 \<le> month e1 \<and> month e1 < 12"
      using e1' addMonths_month_range[of 1] by (auto simp: newExpiryDate_def)
    then show ?thesis using Monthly e2 addMonths_later[of 1 e1]
      by (auto simp: newExpiryDate_def dateLeq_def)
  next
    case Yearly
    then have "0 \<le> month e1 \<and> month e1 < 12"
      using e1' addMonths_month_range[of 12] by (auto simp: newExpiryDate_def addYears_def)
    then show ?thesis using Yearly e2 addMonths_later[of 12 e1]
      by (auto simp: newExpiryDate_def dateLeq_def addYears_def)
  next
    case Lifetime
    then show ?thesis using e1' e2 by (auto simp: newExpiryDate_def dateLeq_def)
  next
    case Trial
    then show ?thesis using notTrial by simp
  next
    case (OtherDuration s)
    then show ?thesis using e2 by (simp add: newExpiryDate_def)
  qed
  moreover have "planExpiry p2 = Some e2" using b(4) by (simp add: subscriptionPatch_def)
  ultimately show ?thesis by blast
qed

theorem renewal_never_shrinks_witness:
  "dateLess feb01 feb15 \<and> plan_id monthlyPlan \<noteq> []
   \<and> (\<exists>e2. planExpiry (purchasedProvider\<lparr>planExpiry := Some mar15\<rparr>) = Some e2
         \<and> dateLeq feb15 e2)"
proof -
  let ?r2 = "updateProviderSubscription feb01 ''asha'' ''pro-monthly'' (paidWith 499)
               worldAfterPurchase"
  have s2: "?r2 = (SubscriptionOk (purchasedProvider\<lparr>planExpiry := Some mar15\<rparr>) monthlyPlan,
                   snd ?r2)"
    using example_renewal by (simp add: prod_eq_iff)
  have e1: "planExpiry purchasedProvider = Some feb15" by (simp add: purchasedProvider_def)
  have nl: "dateLess feb01 feb15" by (simp add: dateLess_def feb01_def feb15_def)
  have ne: "plan_id monthlyPlan \<noteq> []" by (simp add: monthlyPlan_def)
  from renewal_never_shrinks [OF example_purchase_full s2 e1 nl ne] nl ne show ?thesis by simp
qed

text \<open>
  Claim C8. \<open>hasUsedTrial\<close> only ever goes from false to true. Whatever the outcome of a
  call, the provider is still stored afterwards; a flag that was set stays set; when the
  plan is a trial plan the flag is set afterwards; a trial plan asked for by a provider
  who has used the trial is rejected with the message of the source and nothing is
  written; and so is every later application of that trial plan.
\<close>

theorem trial_flag_never_reset:
  assumes prov: "getProviderByUsername w u = Some p"
      and step: "updateProviderSubscription now u pid pd w = (r, w1)"
  shows "\<exists>p1. getProviderByUsername w1 u = Some p1
          \<and> (hasUsedTrial p \<longrightarrow> hasUsedTrial p1)
          \<and> (\<forall>pl. getPlan w pid = Some pl \<and> plan_duration pl = Trial \<longrightarrow>
                hasUsedTrial p1
              \<and> (hasUsedTrial p \<longrightarrow>
                   r = SubscriptionFailed
                         ''You have already used your trial plan. Please choose a paid plan.''
                   \<and> w1 = w)
              \<and> (\<forall>now' pd'. updateProviderSubscription now' u pid pd' w1 =
                    (SubscriptionFailed
                       ''You have already used your trial plan. Please choose a paid plan.'',
                     w1)))"
proof -
  from sub_step_world [OF prov step] show ?thesis
  proof
    assume a: "w1 = w \<and> (\<forall>pl. getPlan w pid = Some pl \<and> plan_duration pl = Trial \<longrightarrow>
              hasUsedTrial p \<and> r = SubscriptionFailed
                ''You have already used your trial plan. Please choose a paid plan.'')"
    then show ?thesis using prov trial_rejected[OF prov] by auto
  next
    assume "\<exists>pl e. getPlan w pid = Some pl \<and> providers w1 u = Some (subscriptionPatch pl p e)
              \<and> plans w1 = plans w"
    then obtain pl e where b: "getPlan w pid = Some pl"
      "providers w1 u = Some (subscriptionPatch pl p e)" "plans w1 = plans w" by blast
    let ?p1 = "subscriptionPatch pl p e"
    have g: "getProviderByUsername w1 u = Some ?p1" using b(2) by (simp add: getProviderByUsername_def)
    have mono: "hasUsedTrial p \<longrightarrow> hasUsedTrial ?p1" by (simp add: subscriptionPatch_def)
    have tr: "plan_duration pl = Trial \<Longrightarrow> hasUsedTrial ?p1" by (simp add: subscriptionPatch_def)
    have pl1: "getPlan w1 pid = Some pl" using b(1,3) by (simp add: getPlan_def)
    have early: "plan_duration pl = Trial \<Longrightarrow> hasUsedTrial p \<Longrightarrow>
        r = SubscriptionFailed ''You have already used your trial plan. Please choose a paid plan.''
        \<and> w1 = w"
      using trial_rejected[OF prov b(1), of now pd] step by simp
    have again: "plan_duration pl = Trial \<Longrightarrow> updateProviderSubscription now' u pid pd' w1 =
                    (SubscriptionFailed
                       ''You have already used your trial plan. Please choose a paid plan.'',
                     w1)" for now' pd'
      using trial_rejected[OF g pl1] tr by simp
    show ?thesis using g mono tr early again b(1) by auto
  qed
qed

theorem trial_flag_never_reset_witness:
  "getProviderByUsername exampleWorld ''asha'' = Some exampleProvider
   \<and> \<not> hasUsedTrial exampleProvider
   \<and> getPlan exampleWorld ''trial'' = Some trialPlan \<and> plan_duration trialPlan = Trial
   \<and> (\<exists>p1. getProviderByUsername
               (snd (updateProviderSubscription jan15 ''asha'' ''trial'' noPayment exampleWorld))
               ''asha'' = Some p1
         \<and> hasUsedTrial p1)
   \<and> updateProviderSubscription feb01 ''asha'' ''trial'' noPayment
        (snd (updateProviderSubscription jan15 ''asha'' ''trial'' noPayment exampleWorld))
      = (SubscriptionFailed ''You have already used your trial plan. Please choose a paid plan.'',
         snd (updateProviderSubscription jan15 ''asha'' ''trial'' noPayment exampleWorld))"
proof -
  let ?r = "updateProviderSubscription jan15 ''asha'' ''trial'' noPayment exampleWorld"
  have prov: "getProviderByUsername exampleWorld ''asha'' = Some exampleProvider"
    by (simp add: getProviderByUsername_def exampleWorld_def)
  have step: "?r = (fst ?r, snd ?r)" by simp
  have pl: "getPlan exampleWorld ''trial'' = Some trialPlan \<and> plan_duration trialPlan = Trial"
    by (simp add: getPlan_def exampleWorld_def trialPlan_def)
  have nu: "\<not> hasUsedTrial exampleProvider" by (simp add: exampleProvider_def)
  from trial_flag_never_reset [OF prov step] pl prov nu show ?thesis by blast
qed

section \<open>Properties of the blocking workflow\<close>

lemma fromSet_distinct: "distinct (fromSet xs)"
  by (simp add: fromSet_def)

lemma fromSet_set: "set (fromSet xs) = set xs"
  by (simp add: fromSet_def)

lemma remdups_append_known:
  "set ys \<subseteq> set xs \<Longrightarrow> remdups (ys @ xs) = remdups xs"
  by (induction ys) auto

lemma fromSet_append_known:
  assumes "distinct xs" "set ys \<subseteq> set xs"
  shows "fromSet (xs @ ys) = xs"
proof -
  have "remdups (rev ys @ rev xs) = remdups (rev xs)"
    using assms(2) by (intro remdups_append_known) simp
  then show ?thesis using assms(1) by (simp add: fromSet_def distinct_remdups_id)
qed

lemma unblock_absent_slot: "s \<notin> set xs \<Longrightarrow> filter (\<lambda>x. x \<noteq> s) xs = xs"
  by (induction xs) auto

lemma unblock_absent_dates: "set ds \<inter> set xs = {} \<Longrightarrow> filter (\<lambda>d. d \<notin> set ds) xs = xs"
  by (induction xs) auto

text \<open>
  Claim C5, evaluated. Blocking a slot that is already blocked stores it a second time:
  \<open>updateBlockedSlots\<close> appends without looking, where \<open>updateBlockedDates\<close> goes
  through a \<open>Set\<close> and stores the date once.
\<close>

theorem blocked_slot_duplicated:
  "blockedSlots (settings exampleProvider) = Some [''2024-01-15T10:00:00.000Z'']
   \<and> map_option (\<lambda>p. blockedSlots (settings p))
        (providers (snd (updateBlockedSlots ''asha'' ''2024-01-15T10:00:00.000Z'' True
                           exampleWorld)) ''asha'')
     = Some (Some [''2024-01-15T10:00:00.000Z'', ''2024-01-15T10:00:00.000Z''])
   \<and> blockedDates (settings exampleProvider) = Some [''2024-01-20'']
   \<and> map_option (\<lambda>p. blockedDates (settings p))
        (providers (snd (updateBlockedDates ''asha'' [''2024-01-20''] True exampleWorld))
           ''asha'')
     = Some (Some [''2024-01-20''])"
  by (simp add: updateBlockedSlots_def updateBlockedDates_def getProviderByUsername_def
      updateProvider_def applyPatch_def noPatch_def fromSet_def Let_def
      exampleWorld_def exampleProvider_def exampleSettings_def)

text \<open>
  Claim C10. A successful \<open>updateBlockedSlots\<close> or \<open>updateBlockedDates\<close> changes
  the world in one place only: the provider's settings get a new \<open>blockedSlots\<close>
  (respectively \<open>blockedDates\<close>) list; every other setting, every other field of the
  provider and everything else stored is as before.
\<close>

theorem blocking_frame:
  assumes "getProviderByUsername w u = Some p"
  shows "(\<exists>xs. updateBlockedSlots u slotISO b w =
            (ActionOk, w\<lparr>providers := (providers w)(u \<mapsto>
               p\<lparr>settings := (settings p)\<lparr>blockedSlots := Some xs\<rparr>\<rparr>)\<rparr>))
       \<and> (\<exists>ys. updateBlockedDates u dates b w =
            (ActionOk, w\<lparr>providers := (providers w)(u \<mapsto>
               p\<lparr>settings := (settings p)\<lparr>blockedDates := Some ys\<rparr>\<rparr>)\<rparr>))"
  using assms
  by (auto simp: updateBlockedSlots_def updateBlockedDates_def getProviderByUsername_def
      updateProvider_found applyPatch_settings Let_def)

theorem blocking_frame_witness:
  "getProviderByUsername exampleWorld ''asha'' = Some exampleProvider
   \<and> (\<exists>xs. updateBlockedSlots ''asha'' ''2024-02-01T09:00:00.000Z'' True exampleWorld =
          (ActionOk, exampleWorld\<lparr>providers := (providers exampleWorld)(''asha'' \<mapsto>
             exampleProvider\<lparr>settings :=
               (settings exampleProvider)\<lparr>blockedSlots := Some xs\<rparr>\<rparr>)\<rparr>))
   \<and> (\<exists>ys. updateBlockedDates ''asha'' [''2024-01-20''] False exampleWorld =
          (ActionOk, exampleWorld\<lparr>providers := (providers exampleWorld)(''asha'' \<mapsto>
             exampleProvider\<lparr>settings :=
               (settings exampleProvider)\<lparr>blockedDates := Some ys\<rparr>\<rparr>)\<rparr>))"
proof -
  have prov: "getProviderByUsername exampleWorld ''asha'' = Some exampleProvider"
    by (simp add: getProviderByUsername_def exampleWorld_def)
  from blocking_frame [OF prov] prov show ?thesis by blast
qed

section \<open>Properties of the booking workflow\<close>

lemma sendEmail_fields [simp]:
  "bookings (sendEmail e w) = bookings w"
  "outbox (sendEmail e w) = outbox w @ [e]"
  "notifications (sendEmail e w) = notifications w"
  "gatewayOrders (sendEmail e w) = gatewayOrders w"
  "paymentRecords (sendEmail e w) = paymentRecords w"
  by (simp_all add: sendEmail_def)

lemma addNotification_fields [simp]:
  "bookings (addNotification t n w) = bookings w"
  "outbox (addNotification t n w) = outbox w"
  "notifications (addNotification t n w) = notifications w @ [(t, n)]"
  "gatewayOrders (addNotification t n w) = gatewayOrders w"
  "paymentRecords (addNotification t n w) = paymentRecords w"
  by (simp_all add: addNotification_def)

lemma createPaymentRecord_fields [simp]:
  "bookings (createPaymentRecord r w) = bookings w"
  "outbox (createPaymentRecord r w) = outbox w"
  "notifications (createPaymentRecord r w) = notifications w"
  "gatewayOrders (createPaymentRecord r w) = gatewayOrders w"
  "paymentRecords (createPaymentRecord r w) = paymentRecords w @ [r]"
  by (simp_all add: createPaymentRecord_def)

lemma updateBooking_fields [simp]:
  "outbox (updateBooking u i q w) = outbox w"
  "notifications (updateBooking u i q w) = notifications w"
  "gatewayOrders (updateBooking u i q w) = gatewayOrders w"
  "paymentRecords (updateBooking u i q w) = paymentRecords w"
  "providers (updateBooking u i q w) = providers w"
  "razorpay (updateBooking u i q w) = razorpay w"
  by (simp_all add: updateBooking_def split: option.splits)

lemma updateBooking_found:
  "bookings w (u, i) = Some b \<Longrightarrow>
   bookings (updateBooking u i q w) (u, i) = Some (applyBookingPatch q b)"
  by (simp add: updateBooking_def)

lemma addBooking_fields [simp]:
  "outbox (snd (addBooking b st w)) = outbox w"
  "notifications (snd (addBooking b st w)) = notifications w"
  "gatewayOrders (snd (addBooking b st w)) = gatewayOrders w"
  "paymentRecords (snd (addBooking b st w)) = paymentRecords w"
  "providers (snd (addBooking b st w)) = providers w"
  "razorpay (snd (addBooking b st w)) = razorpay w"
  "fst (addBooking b st w) = ''booking-'' @ showInt (bookingSeq w)"
  "bookings (snd (addBooking b st w)) (nb_providerUsername b, ''booking-'' @ showInt (bookingSeq w))
     = Some (withId b (''booking-'' @ showInt (bookingSeq w)) st)"
  by (simp_all add: addBooking_def Let_def)

lemma calendarPatch_fields [simp]:
  "bp_status (calendarPatch c q) = bp_status q"
  "bp_payment (calendarPatch c q) = bp_payment q"
  by (simp_all add: calendarPatch_def split: calendar_outcome.splits)

lemma applyBookingPatch_fields:
  "status (applyBookingPatch q b) = (case bp_status q of None \<Rightarrow> status b | Some s \<Rightarrow> s)"
  "bookingPayment (applyBookingPatch q b) =
     (case bp_payment q of None \<Rightarrow> bookingPayment b | Some x \<Rightarrow> Some x)"
  "address (applyBookingPatch q b) = address b"
  by (simp_all add: applyBookingPatch_def)

lemma addBooking_eq:
  "addBooking b st w = (newBookingId w, snd (addBooking b st w))"
  by (simp add: addBooking_def Let_def newBookingId_def)

lemma createBooking_offline:
  assumes parsed: "safeParse sub = Inr d"
      and prov: "getProviderByUsername w (f_providerUsername d) = Some p"
      and valid: "list_ex (\<lambda>st. st_name st = f_serviceType d \<and> st_enabled st)
                    (serviceTypes (settings p))"
      and sts: "sts = find (\<lambda>st. st_name st = f_serviceType d) (serviceTypes (settings p))"
      and path: "\<not> (isPaidService sts \<and> onlinePaymentEnabled (settings p)
                     \<and> f_paymentMethod d = Some ''online'')"
  shows "createBooking ev now sub w =
           confirmWithoutGateway ev d p (orStr (customerTimezoneField sub) ''UTC'') sts
             (fullAddressOf sts d p) (submittedBooking d p) (newBookingId w)
             (confirmationParams d p (orStr (customerTimezoneField sub) ''UTC'')
                (fullAddressOf sts d p))
             (snd (addBooking (submittedBooking d p) Pending w))"
  using parsed prov valid path
  by (auto simp: createBooking_def Let_def submittedBooking_def newBookingId_def
      addBooking_def sts simp del: addBooking_fields)

lemma isPaidService_Some:
  "isPaidService (Some st) = (st_priceEnabled st \<and> (\<exists>k. st_price st = Some k \<and> 0 < k))"
  by (auto simp: isPaidService_def truthyNum_def split: option.splits)

lemma priceOrZero_Some:
  "priceOrZero (Some st) = (case st_price st of None \<Rightarrow> 0 | Some k \<Rightarrow> k)"
  by (simp add: priceOrZero_def orNum_def split: option.splits)

lemma submitted_fields:
  "nb_providerUsername (submittedBooking d p) = f_providerUsername d"
  "nb_address (submittedBooking d p) =
     truthyOrUndefined
       (fullAddressOf (find (\<lambda>st. st_name st = f_serviceType d) (serviceTypes (settings p))) d p)"
  by (simp_all add: submittedBooking_def bookingOf_def Let_def)

lemma doorstep_address:
  "st_id st = ''doorstep'' \<Longrightarrow>
   truthyOrUndefined (fullAddressOf (Some st) d p) =
     Some (tpl (f_flatHouseNo d) @ '', ''
           @ (case f_landmark d of None \<Rightarrow> [] | Some l \<Rightarrow> if l = [] then [] else l @ '', '')
           @ tpl (f_city d) @ '', '' @ tpl (f_state d) @ '' - '' @ tpl (f_pincode d)
           @ '', '' @ tpl (f_country d))"
  by (simp add: fullAddressOf_def truthyOrUndefined_def truthyStr_def tpl_def
      split: option.splits)

lemma stored_new_booking:
  assumes "username p = f_providerUsername d"
  shows "bookings (snd (addBooking (submittedBooking d p) Pending w)) (username p, newBookingId w)
         = Some (withId (submittedBooking d p) (newBookingId w) Pending)"
  using assms addBooking_fields(8)[of "submittedBooking d p" Pending w]
  by (simp add: submitted_fields newBookingId_def del: addBooking_fields)

lemma withId_fields [simp]:
  "address (withId b i st) = nb_address b"
  "status (withId b i st) = st"
  "bookingPayment (withId b i st) = None"
  by (simp_all add: withId_def)

lemma createBooking_online:
  assumes parsed: "safeParse sub = Inr d"
      and prov: "getProviderByUsername w (f_providerUsername d) = Some p"
      and valid: "list_ex (\<lambda>st. st_name st = f_serviceType d \<and> st_enabled st)
                    (serviceTypes (settings p))"
      and sts: "sts = find (\<lambda>st. st_name st = f_serviceType d) (serviceTypes (settings p))"
      and path: "isPaidService sts" "onlinePaymentEnabled (settings p)"
                "f_paymentMethod d = Some ''online''"
  shows "createBooking ev now sub w =
           (case createRazorpayOrder ev now (priceOrZero sts) ''INR'' (newBookingId w)
                   (snd (addBooking (submittedBooking d p) Pending w)) of
              (Inl err, w2) \<Rightarrow> (Thrown err, w2)
            | (Inr ord, w2) \<Rightarrow>
                (OrderCreated ord (newBookingId w)
                   (confirmationParams d p (orStr (customerTimezoneField sub) ''UTC'')
                      (fullAddressOf sts d p)),
                 updateBooking (username p) (newBookingId w)
                   (noBookingPatch\<lparr>bp_payment := Some (orderPayment (order_id ord))\<rparr>) w2))"
  using parsed prov valid path
  by (auto simp: createBooking_def Let_def submittedBooking_def newBookingId_def
      addBooking_def sts simp del: addBooking_fields split: prod.splits sum.splits)

lemma example_lookup:
  "getProviderByUsername exampleWorld ''asha'' = Some exampleProvider"
  "getProviderByUsername cashOnlyWorld ''asha'' = Some cashOnlyProvider"
  by (simp_all add: getProviderByUsername_def exampleWorld_def cashOnlyWorld_def)

lemma example_service:
  "list_ex (\<lambda>st. st_name st = ''Home visit'' \<and> st_enabled st)
     (serviceTypes (settings exampleProvider))"
  "find (\<lambda>st. st_name st = ''Home visit'') (serviceTypes (settings exampleProvider))
     = Some doorstepService"
  "list_ex (\<lambda>st. st_name st = ''Home visit'' \<and> st_enabled st)
     (serviceTypes (settings cashOnlyProvider))"
  "find (\<lambda>st. st_name st = ''Home visit'') (serviceTypes (settings cashOnlyProvider))
     = Some doorstepService"
  by (simp_all add: exampleProvider_def exampleSettings_def doorstepService_def
      cashOnlyProvider_def)

lemma example_id: "newBookingId exampleWorld = ''booking-1''"
  by code_simp



lemma confirmWithoutGateway_stored:
  assumes "bookings w (username p, i) = Some bk0"
  shows "\<exists>bk n.
           bookings (snd (confirmWithoutGateway ev d p tz sts fa b i params w)) (username p, i)
             = Some bk
         \<and> status bk = Upcoming
         \<and> bookingPayment bk = Some (pendingPayment (priceOrZero sts))
         \<and> address bk = address bk0
         \<and> notifications (snd (confirmWithoutGateway ev d p tz sts fa b i params w))
             = notifications w @ [(username p, n)]
         \<and> gatewayOrders (snd (confirmWithoutGateway ev d p tz sts fa b i params w))
             = gatewayOrders w"
  using assms
  by (cases "formatTimes ev p (f_dateTime d) tz")
     (simp_all add: confirmWithoutGateway_def Let_def updateBooking_found
        applyBookingPatch_fields noBookingPatch_def)




lemma createRazorpayOrder_ok:
  assumes "razorpay w = Some rz" "keyId rz = Some kid" "kid \<noteq> []"
    "keySecret rz = Some ks" "ks \<noteq> []"
    "ordersCreate ev \<lparr>oo_amount = numberTimes ev amt 100, oo_currency = cur,
        oo_receipt = ''receipt_order_'' @ showInt (getTime now), oo_payment_capture = 1\<rparr>
       = Some oid"
  shows "createRazorpayOrder ev now amt cur i w =
    (Inr \<lparr>order_id = oid, order_options = \<lparr>oo_amount = numberTimes ev amt 100,
        oo_currency = cur,
        oo_receipt = ''receipt_order_'' @ showInt (getTime now), oo_payment_capture = 1\<rparr>\<rparr>,
     w\<lparr>gatewayOrders := gatewayOrders w @ [\<lparr>oo_amount = numberTimes ev amt 100,
        oo_currency = cur,
        oo_receipt = ''receipt_order_'' @ showInt (getTime now), oo_payment_capture = 1\<rparr>]\<rparr>)"
  using assms by (simp add: createRazorpayOrder_def truthyStr_def Let_def)

lemma createRazorpayOrder_unconfigured:
  "razorpay w = None \<Longrightarrow>
   createRazorpayOrder ev now amt cur i w = (Inl ''Razorpay settings not configured.'', w)"
  by (simp add: createRazorpayOrder_def)

lemma createRazorpayOrder_frame:
  "bookings (snd (createRazorpayOrder ev now amt cur i w)) = bookings w
   \<and> notifications (snd (createRazorpayOrder ev now amt cur i w)) = notifications w
   \<and> outbox (snd (createRazorpayOrder ev now amt cur i w)) = outbox w"
  by (simp add: createRazorpayOrder_def Let_def split: option.splits)


lemma example_lookup3:
  "getProviderByUsername unconfiguredWorld ''asha'' = Some exampleProvider"
  by (simp add: getProviderByUsername_def exampleWorld_def unconfiguredWorld_def)

lemma example_id3: "newBookingId unconfiguredWorld = ''booking-1''"
  by code_simp

lemma online_form:
  "safeParse onlineSubmission = Inr (exampleForm\<lparr>f_paymentMethod := Some ''online''\<rparr>)"
  "safeParse marsSubmission = Inr (exampleForm\<lparr>f_paymentMethod := Some ''online''\<rparr>)"
  "f_providerUsername (exampleForm\<lparr>f_paymentMethod := Some ''online''\<rparr>) = ''asha''"
  "f_serviceType (exampleForm\<lparr>f_paymentMethod := Some ''online''\<rparr>) = ''Home visit''"
  "f_customerEmail (exampleForm\<lparr>f_paymentMethod := Some ''online''\<rparr>) = ''ravi@example.com''"
  "f_dateTime (exampleForm\<lparr>f_paymentMethod := Some ''online''\<rparr>) = jan15"
  by (simp_all add: onlineSubmission_def marsSubmission_def exampleForm_def)

lemma example_service_fields:
  "st_priceEnabled doorstepService" "st_price doorstepService = Some 500"
  "st_id doorstepService = ''doorstep''"
  by (simp_all add: doorstepService_def)

text \<open>
  Claim C3. A submission that passed the schema, for a provider that exists and a service
  type that is enabled, and that does not take the gateway branch (the service is not
  paid, or online payment is off, or the customer did not choose \<open>online\<close>): the
  booking that the call leaves in the store is \<open>Upcoming\<close> with the payment
  \<open>{status: 'Pending', amount: price || 0}\<close>. When the service is the doorstep one, the
  stored address is flat, landmark (left out when empty or absent), city, state, pincode
  and country in the format of the source; a part that is absent is rendered as the
  template literal renders it. This is so whether the call then redirects or throws while
  it formats the display times: the booking is written first.
\<close>

theorem createBooking_without_gateway:
  assumes parsed: "safeParse sub = Inr d"
      and prov: "getProviderByUsername w (f_providerUsername d) = Some p"
      and key: "username p = f_providerUsername d"
      and valid: "list_ex (\<lambda>st. st_name st = f_serviceType d \<and> st_enabled st)
                    (serviceTypes (settings p))"
      and st: "find (\<lambda>st. st_name st = f_serviceType d) (serviceTypes (settings p)) = Some st"
      and path: "\<not> (st_priceEnabled st \<and> (\<exists>k. st_price st = Some k \<and> 0 < k)
                     \<and> onlinePaymentEnabled (settings p)
                     \<and> f_paymentMethod d = Some ''online'')"
  shows "\<exists>bk.
           bookings (snd (createBooking ev now sub w)) (f_providerUsername d, newBookingId w)
             = Some bk
         \<and> status bk = Upcoming
         \<and> bookingPayment bk =
             Some \<lparr>orderId = None, paymentId = None,
                   amount = Some (case st_price st of None \<Rightarrow> 0 | Some k \<Rightarrow> k),
                   paymentStatus = Some PaymentPending\<rparr>
         \<and> (st_id st = ''doorstep'' \<longrightarrow>
              address bk =
                Some (tpl (f_flatHouseNo d) @ '', ''
                      @ (case f_landmark d of
                           None \<Rightarrow> [] | Some l \<Rightarrow> if l = [] then [] else l @ '', '')
                      @ tpl (f_city d) @ '', '' @ tpl (f_state d) @ '' - ''
                      @ tpl (f_pincode d) @ '', '' @ tpl (f_country d)))"
proof -
  let ?tz = "orStr (customerTimezoneField sub) ''UTC''"
  let ?w1 = "snd (addBooking (submittedBooking d p) Pending w)"
  let ?c = "confirmWithoutGateway ev d p ?tz (Some st) (fullAddressOf (Some st) d p)
              (submittedBooking d p) (newBookingId w)
              (confirmationParams d p ?tz (fullAddressOf (Some st) d p)) ?w1"
  have path': "\<not> (isPaidService (Some st) \<and> onlinePaymentEnabled (settings p)
                    \<and> f_paymentMethod d = Some ''online'')"
    using path by (simp add: isPaidService_Some)
  have eq: "createBooking ev now sub w = ?c"
    using createBooking_offline[OF parsed prov valid st[symmetric] path'] .
  from confirmWithoutGateway_stored[where ev = ev and d = d and tz = ?tz and sts = "Some st"
         and fa = "fullAddressOf (Some st) d p" and b = "submittedBooking d p"
         and params = "confirmationParams d p ?tz (fullAddressOf (Some st) d p)",
         OF stored_new_booking[OF key, of w]]
  obtain bk where
    c: "bookings (snd ?c) (username p, newBookingId w) = Some bk"
       "status bk = Upcoming"
       "bookingPayment bk = Some (pendingPayment (priceOrZero (Some st)))"
       "address bk = address (withId (submittedBooking d p) (newBookingId w) Pending)"
    by blast
  have addr: "st_id st = ''doorstep'' \<Longrightarrow> address bk =
                Some (tpl (f_flatHouseNo d) @ '', ''
                      @ (case f_landmark d of
                           None \<Rightarrow> [] | Some l \<Rightarrow> if l = [] then [] else l @ '', '')
                      @ tpl (f_city d) @ '', '' @ tpl (f_state d) @ '' - ''
                      @ tpl (f_pincode d) @ '', '' @ tpl (f_country d))"
    using c(4) doorstep_address[of st d p] by (simp add: submitted_fields st)
  have pay: "bookingPayment bk =
             Some \<lparr>orderId = None, paymentId = None,
                   amount = Some (case st_price st of None \<Rightarrow> 0 | Some k \<Rightarrow> k),
                   paymentStatus = Some PaymentPending\<rparr>"
    using c(3) by (simp add: pendingPayment_def priceOrZero_Some)
  show ?thesis
    using c(1,2) pay addr key by (intro exI[of _ bk]) (simp add: eq)
qed

text \<open>The example of the specification: a doorstep service priced 500 with pay-later
  chosen.\<close>

theorem createBooking_without_gateway_witness:
  "safeParse laterSubmission = Inr exampleForm
   \<and> getProviderByUsername exampleWorld ''asha'' = Some exampleProvider
   \<and> st_price doorstepService = Some 500
   \<and> f_paymentMethod exampleForm = Some ''later''
   \<and> (\<exists>bk. bookings (snd (createBooking exampleEnv jan15 laterSubmission exampleWorld))
               (''asha'', ''booking-1'') = Some bk
       \<and> status bk = Upcoming
       \<and> bookingPayment bk =
           Some \<lparr>orderId = None, paymentId = None, amount = Some 500,
                 paymentStatus = Some PaymentPending\<rparr>
       \<and> address bk = Some ''12B, Near Park, Pune, MH - 411001, India'')"
proof -
  have parsed: "safeParse laterSubmission = Inr exampleForm" by (simp add: laterSubmission_def)
  have u: "f_providerUsername exampleForm = ''asha''" "f_serviceType exampleForm = ''Home visit''"
    by (simp_all add: exampleForm_def)
  have prov: "getProviderByUsername exampleWorld (f_providerUsername exampleForm) = Some exampleProvider"
    using example_lookup(1) u by simp
  have key: "username exampleProvider = f_providerUsername exampleForm"
    by (simp add: exampleProvider_def exampleForm_def)
  have valid: "list_ex (\<lambda>st. st_name st = f_serviceType exampleForm \<and> st_enabled st)
                    (serviceTypes (settings exampleProvider))"
    using example_service(1) u by simp
  have st: "find (\<lambda>st. st_name st = f_serviceType exampleForm)
              (serviceTypes (settings exampleProvider)) = Some doorstepService"
    using example_service(2) u by simp
  have m: "f_paymentMethod exampleForm = Some ''later''" by (simp add: exampleForm_def)
  have path: "\<not> (st_priceEnabled doorstepService
                   \<and> (\<exists>k. st_price doorstepService = Some k \<and> 0 < k)
                   \<and> onlinePaymentEnabled (settings exampleProvider)
                   \<and> f_paymentMethod exampleForm = Some ''online'')"
    using m by simp
  from createBooking_without_gateway [OF parsed prov key valid st path,
         of exampleEnv jan15]
  show ?thesis
    using parsed example_lookup(1) example_service_fields m
    by (simp add: example_id exampleForm_def tpl_def)
qed

text \<open>
  Claim C4, as the code has it. Online payment chosen for a paid service of a provider with
  online payment enabled: whatever the gateway does, the booking stays \<open>Pending\<close> and
  no notification and no email is added. When the admin has configured the gateway (key
  id and key secret) and the gateway answers, the call returns the order descriptor, the
  order was requested with the amount \<open>price * 100\<close> as the platform multiplies numbers
  and the currency INR, and the booking carries only the order id.
\<close>

theorem createBooking_online_order:
  assumes parsed: "safeParse sub = Inr d"
      and prov: "getProviderByUsername w (f_providerUsername d) = Some p"
      and key: "username p = f_providerUsername d"
      and valid: "list_ex (\<lambda>st. st_name st = f_serviceType d \<and> st_enabled st)
                    (serviceTypes (settings p))"
      and st: "find (\<lambda>st. st_name st = f_serviceType d) (serviceTypes (settings p)) = Some st"
      and paid: "st_priceEnabled st" "st_price st = Some k" "0 < k"
      and enabled: "onlinePaymentEnabled (settings p)"
      and online: "f_paymentMethod d = Some ''online''"
  shows "(\<exists>bk. bookings (snd (createBooking ev now sub w))
                  (f_providerUsername d, newBookingId w) = Some bk
              \<and> status bk = Pending)
       \<and> notifications (snd (createBooking ev now sub w)) = notifications w
       \<and> outbox (snd (createBooking ev now sub w)) = outbox w
       \<and> (\<forall>rz kid ks oid.
             razorpay w = Some rz \<and> keyId rz = Some kid \<and> kid \<noteq> []
             \<and> keySecret rz = Some ks \<and> ks \<noteq> []
             \<and> ordersCreate ev
                 \<lparr>oo_amount = numberTimes ev k 100, oo_currency = ''INR'',
                  oo_receipt = ''receipt_order_'' @ showInt (getTime now),
                  oo_payment_capture = 1\<rparr> = Some oid
             \<longrightarrow> (\<exists>params.
                    fst (createBooking ev now sub w) =
                      OrderCreated
                        \<lparr>order_id = oid,
                         order_options =
                           \<lparr>oo_amount = numberTimes ev k 100, oo_currency = ''INR'',
                            oo_receipt = ''receipt_order_'' @ showInt (getTime now),
                            oo_payment_capture = 1\<rparr>\<rparr>
                        (newBookingId w) params)
               \<and> gatewayOrders (snd (createBooking ev now sub w))
                   = gatewayOrders w
                     @ [\<lparr>oo_amount = numberTimes ev k 100, oo_currency = ''INR'',
                         oo_receipt = ''receipt_order_'' @ showInt (getTime now),
                         oo_payment_capture = 1\<rparr>]
               \<and> (\<exists>bk. bookings (snd (createBooking ev now sub w))
                           (f_providerUsername d, newBookingId w) = Some bk
                       \<and> bookingPayment bk =
                           Some \<lparr>orderId = Some oid, paymentId = None, amount = None,
                                 paymentStatus = None\<rparr>))"
proof -
  let ?w1 = "snd (addBooking (submittedBooking d p) Pending w)"
  let ?i = "newBookingId w"
  let ?bk0 = "withId (submittedBooking d p) ?i Pending"
  let ?o = "createRazorpayOrder ev now k ''INR'' ?i ?w1"
  let ?params = "confirmationParams d p (orStr (customerTimezoneField sub) ''UTC'')
                    (fullAddressOf (Some st) d p)"
  let ?R = "createBooking ev now sub w"
  have isPaid: "isPaidService (Some st)" using paid by (simp add: isPaidService_Some)
  have pz: "priceOrZero (Some st) = k" using paid by (simp add: priceOrZero_Some)
  have eq: "?R =
              (case ?o of
                 (Inl err, w2) \<Rightarrow> (Thrown err, w2)
               | (Inr ord, w2) \<Rightarrow>
                   (OrderCreated ord ?i ?params,
                    updateBooking (username p) ?i
                      (noBookingPatch\<lparr>bp_payment := Some (orderPayment (order_id ord))\<rparr>) w2))"
    using createBooking_online[OF parsed prov valid st[symmetric] isPaid enabled online, of ev now]
    by (simp add: pz)
  have b1: "bookings ?w1 (username p, ?i) = Some ?bk0"
    using stored_new_booking[OF key, of w] .
  have fr: "bookings (snd ?o) = bookings ?w1" "notifications (snd ?o) = notifications w"
           "outbox (snd ?o) = outbox w"
    using createRazorpayOrder_frame[of ev now k "''INR''" ?i ?w1] by simp_all
  have always: "(\<exists>bk. bookings (snd ?R) (f_providerUsername d, ?i) = Some bk \<and> status bk = Pending)
       \<and> notifications (snd ?R) = notifications w \<and> outbox (snd ?R) = outbox w"
  proof -
    obtain x w2 where o: "?o = (x, w2)" by (cases ?o)
    have fr2: "bookings w2 = bookings ?w1" "notifications w2 = notifications w"
              "outbox w2 = outbox w"
      using fr by (simp_all add: o)
    show ?thesis
    proof (cases x)
      case (Inl err)
      then have "?R = (Thrown err, w2)" by (simp add: eq o)
      then show ?thesis using fr2 b1 key by simp
    next
      case (Inr ord)
      let ?q = "noBookingPatch\<lparr>bp_payment := Some (orderPayment (order_id ord))\<rparr>"
      have R: "?R = (OrderCreated ord ?i ?params, updateBooking (username p) ?i ?q w2)"
        using Inr by (simp add: eq o)
      have b2: "bookings w2 (username p, ?i) = Some ?bk0" using fr2(1) b1 by simp
      have "bookings (snd ?R) (username p, ?i) = Some (applyBookingPatch ?q ?bk0)"
        using updateBooking_found[OF b2] by (simp add: R)
      moreover have "status (applyBookingPatch ?q ?bk0) = Pending"
        by (simp add: applyBookingPatch_fields noBookingPatch_def)
      ultimately show ?thesis using fr2 key by (simp add: R)
    qed
  qed
  have ordered: "(\<exists>params. fst ?R =
                      OrderCreated
                        \<lparr>order_id = oid,
                         order_options =
                           \<lparr>oo_amount = numberTimes ev k 100, oo_currency = ''INR'',
                            oo_receipt = ''receipt_order_'' @ showInt (getTime now),
                            oo_payment_capture = 1\<rparr>\<rparr>
                        ?i params)
               \<and> gatewayOrders (snd ?R)
                   = gatewayOrders w
                     @ [\<lparr>oo_amount = numberTimes ev k 100, oo_currency = ''INR'',
                         oo_receipt = ''receipt_order_'' @ showInt (getTime now),
                         oo_payment_capture = 1\<rparr>]
               \<and> (\<exists>bk. bookings (snd ?R) (f_providerUsername d, ?i) = Some bk
                       \<and> bookingPayment bk =
                           Some \<lparr>orderId = Some oid, paymentId = None, amount = None,
                                 paymentStatus = None\<rparr>)"
    if cfg: "razorpay w = Some rz" "keyId rz = Some kid" "kid \<noteq> []"
            "keySecret rz = Some ks" "ks \<noteq> []"
       and gateway: "ordersCreate ev
                 \<lparr>oo_amount = numberTimes ev k 100, oo_currency = ''INR'',
                  oo_receipt = ''receipt_order_'' @ showInt (getTime now),
                  oo_payment_capture = 1\<rparr> = Some oid"
    for rz kid ks oid
  proof -
    let ?opts = "\<lparr>oo_amount = numberTimes ev k 100, oo_currency = ''INR'',
                   oo_receipt = ''receipt_order_'' @ showInt (getTime now),
                   oo_payment_capture = 1\<rparr>"
    let ?w2 = "?w1\<lparr>gatewayOrders := gatewayOrders ?w1 @ [?opts]\<rparr>"
    let ?q = "noBookingPatch\<lparr>bp_payment := Some (orderPayment oid)\<rparr>"
    let ?w3 = "updateBooking (username p) ?i ?q ?w2"
    have rz1: "razorpay ?w1 = Some rz" using cfg(1) by simp
    have ord: "?o = (Inr \<lparr>order_id = oid, order_options = ?opts\<rparr>, ?w2)"
      using createRazorpayOrder_ok[OF rz1 cfg(2-5) gateway] .
    have R: "?R = (OrderCreated \<lparr>order_id = oid, order_options = ?opts\<rparr> ?i ?params, ?w3)"
      by (simp add: eq ord)
    have b2: "bookings ?w2 (username p, ?i) = Some ?bk0" using b1 by simp
    have b3: "bookings ?w3 (username p, ?i) = Some (applyBookingPatch ?q ?bk0)"
      using updateBooking_found[OF b2] .
    have f: "bookingPayment (applyBookingPatch ?q ?bk0) =
          Some \<lparr>orderId = Some oid, paymentId = None, amount = None, paymentStatus = None\<rparr>"
      by (simp add: applyBookingPatch_fields noBookingPatch_def orderPayment_def)
    have g: "gatewayOrders ?w3 = gatewayOrders w @ [?opts]" by simp
    show ?thesis using b3 f g key by (simp add: R)
  qed
  show ?thesis using always ordered by blast
qed

theorem createBooking_online_order_witness:
  "safeParse onlineSubmission = Inr (exampleForm\<lparr>f_paymentMethod := Some ''online''\<rparr>)
   \<and> getProviderByUsername exampleWorld ''asha'' = Some exampleProvider
   \<and> onlinePaymentEnabled (settings exampleProvider)
   \<and> st_priceEnabled doorstepService \<and> st_price doorstepService = Some 500
   \<and> (\<exists>bk. bookings (snd (createBooking exampleEnv jan15 onlineSubmission exampleWorld))
               (''asha'', ''booking-1'') = Some bk
          \<and> status bk = Pending)
   \<and> notifications (snd (createBooking exampleEnv jan15 onlineSubmission exampleWorld)) = []
   \<and> outbox (snd (createBooking exampleEnv jan15 onlineSubmission exampleWorld)) = []
   \<and> (\<exists>params receipt.
         fst (createBooking exampleEnv jan15 onlineSubmission exampleWorld)
           = OrderCreated
               \<lparr>order_id = ''order_9'',
                order_options = \<lparr>oo_amount = 50000, oo_currency = ''INR'',
                                  oo_receipt = receipt, oo_payment_capture = 1\<rparr>\<rparr>
               ''booking-1'' params
       \<and> gatewayOrders (snd (createBooking exampleEnv jan15 onlineSubmission exampleWorld))
           = [\<lparr>oo_amount = 50000, oo_currency = ''INR'', oo_receipt = receipt,
               oo_payment_capture = 1\<rparr>])
   \<and> (\<exists>bk. bookings (snd (createBooking exampleEnv jan15 onlineSubmission exampleWorld))
               (''asha'', ''booking-1'') = Some bk
          \<and> bookingPayment bk =
              Some \<lparr>orderId = Some ''order_9'', paymentId = None, amount = None,
                    paymentStatus = None\<rparr>)"
proof -
  let ?d = "exampleForm\<lparr>f_paymentMethod := Some ''online''\<rparr>"
  let ?R = "createBooking exampleEnv jan15 onlineSubmission exampleWorld"
  let ?rz = "\<lparr>keyId = Some ''rzp_test_key'', keySecret = Some ''s3cret''\<rparr>"
  let ?receipt = "''receipt_order_'' @ showInt (getTime jan15)"
  have prov: "getProviderByUsername exampleWorld (f_providerUsername ?d) = Some exampleProvider"
    using example_lookup(1) online_form(3) by simp
  have key: "username exampleProvider = f_providerUsername ?d"
    by (simp add: exampleProvider_def exampleForm_def)
  have valid: "list_ex (\<lambda>st. st_name st = f_serviceType ?d \<and> st_enabled st)
                    (serviceTypes (settings exampleProvider))"
    using example_service(1) online_form(4) by simp
  have st: "find (\<lambda>st. st_name st = f_serviceType ?d)
              (serviceTypes (settings exampleProvider)) = Some doorstepService"
    using example_service(2) online_form(4) by simp
  have m: "f_paymentMethod ?d = Some ''online''" by simp
  have pos: "(0::number) < 500" by simp
  have on: "onlinePaymentEnabled (settings exampleProvider)"
    by (simp add: exampleProvider_def exampleSettings_def)
  have e: "notifications exampleWorld = []" "outbox exampleWorld = []"
          "gatewayOrders exampleWorld = []"
    by (simp_all add: exampleWorld_def)
  have times: "numberTimes exampleEnv 500 100 = 50000" by (simp add: exampleEnv_def)
  have cfg: "razorpay exampleWorld = Some ?rz \<and> keyId ?rz = Some ''rzp_test_key''
             \<and> ''rzp_test_key'' \<noteq> [] \<and> keySecret ?rz = Some ''s3cret'' \<and> ''s3cret'' \<noteq> []
             \<and> ordersCreate exampleEnv
                 \<lparr>oo_amount = numberTimes exampleEnv 500 100, oo_currency = ''INR'',
                  oo_receipt = ?receipt, oo_payment_capture = 1\<rparr> = Some ''order_9''"
    by (simp add: exampleWorld_def exampleEnv_def)
  note t = createBooking_online_order [OF online_form(1) prov key valid st
             example_service_fields(1,2) pos on m, of exampleEnv jan15]
  have a: "\<exists>bk. bookings (snd ?R) (''asha'', ''booking-1'') = Some bk \<and> status bk = Pending"
    using t[THEN conjunct1] by (simp only: online_form(3) example_id)
  have b: "notifications (snd ?R) = []"
    using t[THEN conjunct2, THEN conjunct1] by (simp only: e)
  have c: "outbox (snd ?R) = []"
    using t[THEN conjunct2, THEN conjunct2, THEN conjunct1] by (simp only: e)
  note u = t[THEN conjunct2, THEN conjunct2, THEN conjunct2, THEN spec, THEN spec, THEN spec,
             THEN spec, THEN mp, OF cfg]
  have d1: "\<exists>params receipt.
         fst ?R = OrderCreated
               \<lparr>order_id = ''order_9'',
                order_options = \<lparr>oo_amount = 50000, oo_currency = ''INR'',
                                  oo_receipt = receipt, oo_payment_capture = 1\<rparr>\<rparr>
               ''booking-1'' params
       \<and> gatewayOrders (snd ?R)
           = [\<lparr>oo_amount = 50000, oo_currency = ''INR'', oo_receipt = receipt,
               oo_payment_capture = 1\<rparr>]"
  proof -
    from u[THEN conjunct1] obtain params where
      p: "fst ?R = OrderCreated
               \<lparr>order_id = ''order_9'',
                order_options = \<lparr>oo_amount = 50000, oo_currency = ''INR'',
                                  oo_receipt = ?receipt, oo_payment_capture = 1\<rparr>\<rparr>
               ''booking-1'' params"
      by (auto simp only: times example_id)
    have g: "gatewayOrders (snd ?R)
           = [\<lparr>oo_amount = 50000, oo_currency = ''INR'', oo_receipt = ?receipt,
               oo_payment_capture = 1\<rparr>]"
      using u[THEN conjunct2, THEN conjunct1] by (simp only: times e append_Nil)
    show ?thesis using p g by blast
  qed
  have d2: "\<exists>bk. bookings (snd ?R) (''asha'', ''booking-1'') = Some bk
          \<and> bookingPayment bk =
              Some \<lparr>orderId = Some ''order_9'', paymentId = None, amount = None,
                    paymentStatus = None\<rparr>"
    using u[THEN conjunct2, THEN conjunct2] by (simp only: online_form(3) example_id)
  show ?thesis
    by (intro conjI online_form(1) example_lookup(1) on example_service_fields(1,2) a b c d1 d2)
qed

text \<open>
  Claim C4 as stated fails when the gateway is not configured: under the three conditions
  of the claim the call throws \<open>Razorpay settings not configured.\<close>, no order is
  requested and the booking carries no order id.
\<close>

theorem unconfigured_gateway_no_order:
  "safeParse onlineSubmission = Inr (exampleForm\<lparr>f_paymentMethod := Some ''online''\<rparr>)
   \<and> f_paymentMethod (exampleForm\<lparr>f_paymentMethod := Some ''online''\<rparr>) = Some ''online''
   \<and> find (\<lambda>st. st_name st = ''Home visit'') (serviceTypes (settings exampleProvider))
       = Some doorstepService
   \<and> st_priceEnabled doorstepService \<and> st_price doorstepService = Some 500
   \<and> onlinePaymentEnabled (settings exampleProvider)
   \<and> getProviderByUsername unconfiguredWorld ''asha'' = Some exampleProvider
   \<and> razorpay unconfiguredWorld = None
   \<and> fst (createBooking exampleEnv jan15 onlineSubmission unconfiguredWorld)
       = Thrown ''Razorpay settings not configured.''
   \<and> gatewayOrders (snd (createBooking exampleEnv jan15 onlineSubmission unconfiguredWorld)) = []
   \<and> map_option bookingPayment
        (bookings (snd (createBooking exampleEnv jan15 onlineSubmission unconfiguredWorld))
           (''asha'', ''booking-1'')) = Some None"
proof -
  let ?d = "exampleForm\<lparr>f_paymentMethod := Some ''online''\<rparr>"
  let ?w1 = "snd (addBooking (submittedBooking ?d exampleProvider) Pending unconfiguredWorld)"
  have prov: "getProviderByUsername unconfiguredWorld (f_providerUsername ?d) = Some exampleProvider"
    using example_lookup3 online_form(3) by simp
  have key: "username exampleProvider = f_providerUsername ?d"
    by (simp add: exampleProvider_def exampleForm_def)
  have valid: "list_ex (\<lambda>st. st_name st = f_serviceType ?d \<and> st_enabled st)
                    (serviceTypes (settings exampleProvider))"
    using example_service(1) online_form(4) by simp
  have st: "Some doorstepService = find (\<lambda>st. st_name st = f_serviceType ?d)
              (serviceTypes (settings exampleProvider))"
    using example_service(2) online_form(4) by simp
  have m: "f_paymentMethod ?d = Some ''online''" by simp
  have on: "onlinePaymentEnabled (settings exampleProvider)"
    by (simp add: exampleProvider_def exampleSettings_def)
  have isPaid: "isPaidService (Some doorstepService)"
    by (simp add: isPaidService_Some doorstepService_def)
  have none: "razorpay unconfiguredWorld = None" by (simp add: unconfiguredWorld_def)
  have none1: "razorpay ?w1 = None" using none by simp
  have eq: "createBooking exampleEnv jan15 onlineSubmission unconfiguredWorld
              = (Thrown ''Razorpay settings not configured.'', ?w1)"
    using createBooking_online[OF online_form(1) prov valid st isPaid on m, of exampleEnv jan15]
    by (simp add: createRazorpayOrder_unconfigured[OF none1])
  have g: "gatewayOrders ?w1 = []" by (simp add: unconfiguredWorld_def exampleWorld_def)
  have b: "bookings ?w1 (''asha'', ''booking-1'')
             = Some (withId (submittedBooking ?d exampleProvider) ''booking-1'' Pending)"
    using stored_new_booking[OF key, of unconfiguredWorld]
    by (simp only: example_id3 online_form(3) key[symmetric])
      (simp add: exampleProvider_def)
  have r: "gatewayOrders (snd (createBooking exampleEnv jan15 onlineSubmission unconfiguredWorld)) = []"
     "map_option bookingPayment
        (bookings (snd (createBooking exampleEnv jan15 onlineSubmission unconfiguredWorld))
           (''asha'', ''booking-1'')) = Some None"
    using g b by (simp_all add: eq del: addBooking_fields)
  have thrown: "fst (createBooking exampleEnv jan15 onlineSubmission unconfiguredWorld)
                  = Thrown ''Razorpay settings not configured.''"
    by (simp add: eq del: addBooking_fields)
  show ?thesis
    by (intro conjI online_form(1) m example_service(2) example_service_fields(1,2) on
        example_lookup3 none thrown r)
qed




section \<open>Properties of payment verification\<close>




section \<open>Properties of the calendar links\<close>

text \<open>
  Claim C6, evaluated. A provider in \<open>Asia/Kolkata\<close> with the default slot duration and
  a booking at 2024-01-15T10:00:00.000Z. The end is one hour after the start in all three
  artifacts. The Google link and the Outlook link carry the start in UTC, 10:00 Z. The
  calendar document carries the same digits, 10:00, labelled with the provider's zone:
  10:00 in \<open>Asia/Kolkata\<close> is 04:30 Z.
\<close>

theorem calendar_artifacts_disagree:
  "timezone (settings exampleProvider) = ''Asia/Kolkata''
   \<and> toISOString jan15 = ''2024-01-15T10:00:00.000Z''
   \<and> toISOString (endTimeOf exampleProvider jan15) = ''2024-01-15T11:00:00.000Z''
   \<and> googleLinkOf ''T'' ''D'' ''L'' jan15 (endTimeOf exampleProvider jan15)
       = ''https://www.google.com/calendar/render?action=TEMPLATE&text=T&dates=20240115T100000Z/20240115T110000Z&details=D&location=L''
   \<and> outlookLinkOf ''T'' ''D'' ''L'' jan15 (endTimeOf exampleProvider jan15)
       = ''https://outlook.live.com/calendar/0/deeplink/compose?path=/calendar/action/compose&rru=addevent&subject=T&startdt=2024-01-15T10:00:00.000Z&enddt=2024-01-15T11:00:00.000Z&body=D&location=L''
   \<and> icsContentOf (timezone (settings exampleProvider)) ''T'' ''D'' ''L'' jan15
         (endTimeOf exampleProvider jan15)
       = joinWith crlf
           [''BEGIN:VCALENDAR'', ''VERSION:2.0'', ''BEGIN:VEVENT'',
            ''DTSTART;TZID=Asia/Kolkata:20240115T100000'',
            ''DTEND;TZID=Asia/Kolkata:20240115T110000'',
            ''SUMMARY:T'', ''DESCRIPTION:D'', ''LOCATION:L'', ''END:VEVENT'', ''END:VCALENDAR'']"
  by code_simp

end
